theory Spec2Isabelle
  imports Complex_Main
begin

section \<open>Strings, as the endpoints use them\<close>

text \<open>
  Python strings are modelled as \<^typ>\<open>string\<close>. The endpoints only split a file name at
  dots, lower-case it and interpolate integers into f-strings; those three operations are
  written out here. \<open>char_lower\<close> lowers the ASCII letters only: no other character
  lowers to a letter of the allowed extensions.
\<close>

fun split_sep :: "char \<Rightarrow> string \<Rightarrow> string list" where
  "split_sep c [] = [[]]"
| "split_sep c (x # xs) =
     (if x = c then [] # split_sep c xs
      else (case split_sep c xs of
              [] \<Rightarrow> [[x]]
            | p # ps \<Rightarrow> (x # p) # ps))"

definition char_lower :: "char \<Rightarrow> char" where
  "char_lower c =
     (let n = (of_char c :: nat) in if 65 \<le> n \<and> n \<le> 90 then char_of (n + 32) else c)"

definition lower :: "string \<Rightarrow> string" where
  "lower s = map char_lower s"

text \<open>\<^verbatim>\<open>file.filename.split(".")[-1].lower()\<close>\<close>

definition filename_extension :: "string \<Rightarrow> string" where
  "filename_extension filename = lower (last (split_sep (CHR ''.'') filename))"

fun str_nat :: "nat \<Rightarrow> string" where
  "str_nat n =
     (if n < 10 then [char_of (48 + n)]
      else str_nat (n div 10) @ [char_of (48 + n mod 10)])"

declare str_nat.simps [simp del]

text \<open>\<^verbatim>\<open>f"{i}"\<close> for an integer.\<close>

definition str_int :: "int \<Rightarrow> string" where
  "str_int i = (if i < 0 then CHR ''-'' # str_nat (nat (- i)) else str_nat (nat i))"

text \<open>\<^verbatim>\<open>f"{s}"\<close> for an optional string: \<^verbatim>\<open>None\<close> prints as its name.\<close>

definition str_opt :: "string option \<Rightarrow> string" where
  "str_opt s = (case s of None \<Rightarrow> ''None'' | Some t \<Rightarrow> t)"

text \<open>
  \<^verbatim>\<open>Path(file_path).suffix\<close> of pathlib on POSIX: the last component that is neither
  empty nor a single dot, from its last dot on, when that dot is neither its first nor
  its last character.
\<close>

definition path_name :: "string \<Rightarrow> string" where
  "path_name p =
     (case filter (\<lambda>c. c \<noteq> [] \<and> c \<noteq> ''.'') (split_sep (CHR ''/'') p) of
        [] \<Rightarrow> []
      | c # cs \<Rightarrow> last (c # cs))"

definition path_suffix :: "string \<Rightarrow> string" where
  "path_suffix p =
     (let name = path_name p;
          after = rev (takeWhile (\<lambda>c. c \<noteq> CHR ''.'') (rev name))
      in if length after = length name then []
         else if after = [] \<or> length after + 1 = length name then []
         else CHR ''.'' # after)"

section \<open>The data model (models.py and the response schemas)\<close>

type_synonym bytes = string
type_synonym datetime = nat

record user =
  u_id :: int
  u_full_name :: "string option"
  u_email :: "string option"
  u_hashed_password :: string
  u_role :: "string option"
  u_college_id :: "int option"
  u_phone_number :: "string option"
  u_address :: "string option"
  u_interests :: "string option"
  u_college_name :: "string option"
  u_profile_image_url :: "string option"
  u_theme_preference :: "string option"
  u_is_active :: "bool option"
  u_is_superuser :: bool
  u_events_count :: "int option"
  u_buddies_count :: "int option"

record event =
  e_id :: int
  e_title :: string
  e_description :: "string option"
  e_location :: "string option"
  e_start_time :: "datetime option"
  e_end_time :: "datetime option"
  e_image_url :: "string option"
  e_organizer_id :: "int option"
  e_college_id :: "int option"
  e_created_at :: datetime

record participation =
  p_id :: int
  p_user_id :: "int option"
  p_event_id :: "int option"
  p_registered_at :: datetime
  p_status :: string

record notification =
  n_id :: int
  n_user_id :: "int option"
  n_title :: string
  n_message :: string
  n_type :: string
  n_is_read :: bool
  n_created_at :: datetime

record marketplace_item =
  mi_id :: int
  mi_owner_id :: int
  mi_title :: string
  mi_description :: string
  mi_price :: real
  mi_category :: string
  mi_image_url :: "string option"
  mi_is_available :: bool
  mi_created_at :: datetime

record verification_request =
  vr_id :: int
  vr_user_id :: int
  vr_id_card_url :: string
  vr_status :: string
  vr_admin_note :: "string option"
  vr_created_at :: datetime

text \<open>
  What an endpoint raises. \<open>HTTPException\<close> carries the status code and the detail as
  the source writes them. The other three are exceptions that no handler catches, so the
  client gets status 500: \<open>MultipleResultsFound\<close> is what \<^verbatim>\<open>scalar_one_or_none()\<close>
  raises on more than one row; \<open>FileNotFoundError\<close> is what \<^verbatim>\<open>open(path, "wb")\<close> raises
  when the directory of the path does not exist; \<open>ExpiredInstanceError\<close> is what building
  the response raises when the returned object belongs to a session whose failed commit
  rolled it back and expired its objects, with no \<^verbatim>\<open>rollback()\<close> after it.
\<close>

datatype error =
    HTTPException nat string
  | MultipleResultsFound
  | FileNotFoundError
  | ExpiredInstanceError

text \<open>
  Calls that leave the process: the remote object store, the local file system, the
  websocket manager and the console. Every attempted call is appended to the log of the
  state, whether it then succeeds or raises.
\<close>

datatype io_call =
    RemoteRemove string
  | RemoteUpload string bytes string
  | LocalMkdir string
  | LocalWrite string bytes
  | Broadcast string string string string int
  | Print string

text \<open>
  The record store: one list of rows per table, in the order the store returns them, the
  log of outside calls, the store's clock for \<^verbatim>\<open>server_default=func.now()\<close>, and the
  local file system as far as the endpoints depend on it: \<open>local_dirs\<close> holds the paths,
  as the process writes them, that name an existing directory.
  A commit of the store succeeds, except the commit of the notification in
  \<open>create_event\<close>, whose failure is an input.
\<close>

record world =
  users :: "user list"
  events :: "event list"
  participations :: "participation list"
  notifications :: "notification list"
  marketplace_items :: "marketplace_item list"
  verification_requests :: "verification_request list"
  io_log :: "io_call list"
  now :: datetime
  local_dirs :: "string list"

text \<open>
  The local file system. \<^verbatim>\<open>upload_dir.mkdir(parents=True, exist_ok=True)\<close> makes the
  directory and its ancestors. \<^verbatim>\<open>open(path, "wb")\<close> raises \<open>FileNotFoundError\<close> when
  the text of the path before its last slash names no existing directory; a path without
  a slash is in the working directory. Other failures of the file system (permissions, a
  full disk) are not modelled.
\<close>

fun dir_prefixes :: "string \<Rightarrow> string \<Rightarrow> string list" where
  "dir_prefixes acc [] = (if acc = [] then [] else [acc])"
| "dir_prefixes acc (c # cs) =
     (if c = CHR ''/''
      then (if acc = [] then [] else [acc]) @ dir_prefixes (acc @ [c]) cs
      else dir_prefixes (acc @ [c]) cs)"

definition mkdir_parents :: "string \<Rightarrow> world \<Rightarrow> world" where
  "mkdir_parents upload_dir w =
     w\<lparr>local_dirs := local_dirs w @ dir_prefixes [] upload_dir,
       io_log := io_log w @ [LocalMkdir upload_dir]\<rparr>"

definition parent_dir :: "string \<Rightarrow> string" where
  "parent_dir path = rev (drop 1 (dropWhile (\<lambda>c. c \<noteq> CHR ''/'') (rev path)))"

definition open_raises :: "world \<Rightarrow> string \<Rightarrow> bool" where
  "open_raises w path \<longleftrightarrow> parent_dir path \<noteq> [] \<and> parent_dir path \<notin> set (local_dirs w)"

text \<open>
  The local fallback of an upload: make the upload directory, then open the file and
  write the contents. The second component is the exception, if one is raised.
\<close>

definition write_local_file :: "string \<Rightarrow> string \<Rightarrow> bytes \<Rightarrow> world \<Rightarrow> world \<times> error option" where
  "write_local_file upload_dir path contents w =
     (let w1 = mkdir_parents upload_dir w;
          w2 = w1\<lparr>io_log := io_log w1 @ [LocalWrite path contents]\<rparr>
      in (w2, if open_raises w1 path then Some FileNotFoundError else None))"

text \<open>
  The block \<^verbatim>\<open>if image_url is None: ...\<close> of the four upload endpoints: a URL of the
  remote store is kept; without one the file is written below \<open>upload_dir\<close> and the
  local URL is taken.
\<close>

definition url_or_local ::
  "string option \<Rightarrow> string \<Rightarrow> string \<Rightarrow> bytes \<Rightarrow> string \<Rightarrow> world \<Rightarrow> world \<times> (error + string)" where
  "url_or_local remote_url upload_dir path contents local_url w =
     (case remote_url of
        Some url \<Rightarrow> (w, Inr url)
      | None \<Rightarrow>
          (case write_local_file upload_dir path contents w of
             (w1, Some err) \<Rightarrow> (w1, Inl err)
           | (w1, None) \<Rightarrow> (w1, Inr local_url)))"

text \<open>The next value of an autoincrement primary key: above every id in the table.\<close>

definition fresh_id :: "int list \<Rightarrow> int" where
  "fresh_id ids = fold max ids 0 + 1"

text \<open>\<^verbatim>\<open>result.scalar_one_or_none()\<close>\<close>

fun scalar_one_or_none :: "'a list \<Rightarrow> error + 'a option" where
  "scalar_one_or_none [] = Inr None"
| "scalar_one_or_none [x] = Inr (Some x)"
| "scalar_one_or_none (x # y # zs) = Inl MultipleResultsFound"

section \<open>Collaborators that are not among the sources\<close>

text \<open>
  The dependencies \<^verbatim>\<open>deps.get_current_active_user\<close> and
  \<^verbatim>\<open>deps.get_current_active_college_admin\<close>, the password hash, the failures of the
  notification path and the random name of a verification document are inputs of the
  model. A dependency either admits the actor (\<open>None\<close>) or raises.
\<close>

datatype client = Client (remove_raises: "string \<Rightarrow> bool") (upload_raises: "string \<Rightarrow> bool")

record supabase_storage =
  s_url :: "string option"
  s_key :: "string option"
  s_bucket_name :: string
  s_client :: "client option"

record env =
  get_current_active_user :: "user \<Rightarrow> error option"
  get_current_active_college_admin :: "user \<Rightarrow> error option"
  get_password_hash :: "string option \<Rightarrow> error + string"
  notification_commit_raises :: bool
  broadcast_raises :: bool
  uuid4_hex :: string
  storage :: supabase_storage

text \<open>
  Modelled from the spec: the two dependencies of \<^verbatim>\<open>app/api/deps.py\<close>, which is not
  among the sources. Section 4.3 of the specification: \<open>any_authenticated\<close> admits every
  actor; \<open>college_admin_or_above\<close> admits role \<open>super_admin\<close> and role \<open>college_admin\<close>
  and denies every other actor. Only concrete examples use it.
\<close>

definition spec_current_active_user :: "user \<Rightarrow> error option" where
  "spec_current_active_user u = None"

definition spec_current_active_college_admin :: "user \<Rightarrow> error option" where
  "spec_current_active_college_admin u =
     (if u_role u = Some ''super_admin'' then None
      else if u_role u = Some ''college_admin'' then None
      else Some (HTTPException 403 ''PermissionDenied''))"

section \<open>events.py\<close>

text \<open>
  \<open>read_events\<close>: the query \<^verbatim>\<open>select(EventModel)\<close>, restricted to the actor's college
  unless the actor is a superuser, then \<^verbatim>\<open>offset(skip).limit(limit)\<close>. The comparison
  with a \<^verbatim>\<open>None\<close> college is rendered \<^verbatim>\<open>IS NULL\<close>, which is equality of options.
  \<open>skip\<close> and \<open>limit\<close> are natural numbers.
\<close>

definition read_events :: "env \<Rightarrow> world \<Rightarrow> user \<Rightarrow> nat \<Rightarrow> nat \<Rightarrow> error + event list" where
  "read_events env w current_user skip limit =
     (case get_current_active_user env current_user of
        Some err \<Rightarrow> Inl err
      | None \<Rightarrow>
          let query = (if \<not> u_is_superuser current_user
                       then filter (\<lambda>e. e_college_id e = u_college_id current_user) (events w)
                       else events w)
          in Inr (take limit (drop skip query)))"

text \<open>
  Modelled from the spec: the request schemas \<^verbatim>\<open>EventCreate\<close> and \<^verbatim>\<open>EventUpdate\<close> of
  \<^verbatim>\<open>app/schemas/event.py\<close>, which is not among the sources. They carry the descriptive
  columns of an event; in an update a field that is \<open>None\<close> is unset.
\<close>

record event_create =
  ec_title :: string
  ec_description :: "string option"
  ec_location :: "string option"
  ec_start_time :: "datetime option"
  ec_end_time :: "datetime option"

record event_update =
  eu_title :: "string option"
  eu_description :: "string option option"
  eu_location :: "string option option"
  eu_start_time :: "datetime option option"
  eu_end_time :: "datetime option option"

record upload_file =
  uf_filename :: string
  uf_contents :: bytes

text \<open>\<^verbatim>\<open>setattr\<close> for a field of \<^verbatim>\<open>dict(exclude_unset=True)\<close>: an unset field keeps its value.\<close>

definition assign :: "'a option \<Rightarrow> 'a \<Rightarrow> 'a" where
  "assign upd old = (case upd of None \<Rightarrow> old | Some v \<Rightarrow> v)"

text \<open>
  The \<^verbatim>\<open>try\<close> block of \<open>create_event\<close>: the notification is added and committed, then
  broadcast; whatever is raised there is printed and dropped. A commit that raises rolls
  the session back, and the \<^verbatim>\<open>except\<close> block does not call \<^verbatim>\<open>rollback()\<close>: the second
  component tells whether the objects of the session, the created event among them, are
  left expired. A broadcast that raises leaves the session as it is.
\<close>

definition broadcast_new_event :: "env \<Rightarrow> world \<Rightarrow> event \<Rightarrow> user \<Rightarrow> world \<times> bool" where
  "broadcast_new_event env w db_obj current_user =
     (if notification_commit_raises env
      then (w\<lparr>io_log := io_log w @ [Print ''Notification Error'']\<rparr>, True)
      else
        let new_notif =
              \<lparr>n_id = fresh_id (map n_id (notifications w)), n_user_id = None,
               n_title = ''New Event!'',
               n_message = e_title db_obj @ '' has been organized by ''
                           @ str_opt (u_full_name current_user),
               n_type = ''info'', n_is_read = False, n_created_at = now w\<rparr>;
            w1 = w\<lparr>notifications := notifications w @ [new_notif]\<rparr>;
            w2 = w1\<lparr>io_log := io_log w1 @
                   [Broadcast ''notification'' (n_title new_notif) (n_message new_notif)
                      (n_type new_notif) (n_id new_notif)]\<rparr>
        in if broadcast_raises env
           then (w2\<lparr>io_log := io_log w2 @ [Print ''Notification Error'']\<rparr>, False)
           else (w2, False))"

text \<open>
  \<open>create_event\<close>: \<^verbatim>\<open>return db_obj\<close> is turned into the response by reading the object;
  reading an expired object raises.
\<close>

definition create_event :: "env \<Rightarrow> world \<Rightarrow> event_create \<Rightarrow> user \<Rightarrow> world \<times> (error + event)" where
  "create_event env w event_in current_user =
     (case get_current_active_college_admin env current_user of
        Some err \<Rightarrow> (w, Inl err)
      | None \<Rightarrow>
          let db_obj =
                \<lparr>e_id = fresh_id (map e_id (events w)), e_title = ec_title event_in,
                 e_description = ec_description event_in, e_location = ec_location event_in,
                 e_start_time = ec_start_time event_in, e_end_time = ec_end_time event_in,
                 e_image_url = None, e_organizer_id = Some (u_id current_user),
                 e_college_id = u_college_id current_user, e_created_at = now w\<rparr>;
              w1 = w\<lparr>events := events w @ [db_obj]\<rparr>
          in (case broadcast_new_event env w1 db_obj current_user of
                (w2, expired) \<Rightarrow>
                  (w2, if expired then Inl ExpiredInstanceError else Inr db_obj)))"

text \<open>\<open>read_event\<close> has no dependency on the current user.\<close>

definition read_event :: "world \<Rightarrow> int \<Rightarrow> error + event" where
  "read_event w i =
     (case scalar_one_or_none (filter (\<lambda>e. e_id e = i) (events w)) of
        Inl err \<Rightarrow> Inl err
      | Inr None \<Rightarrow> Inl (HTTPException 404 ''Event not found'')
      | Inr (Some event) \<Rightarrow> Inr event)"

definition apply_event_update :: "event_update \<Rightarrow> event \<Rightarrow> event" where
  "apply_event_update event_in event =
     event\<lparr>e_title := assign (eu_title event_in) (e_title event),
           e_description := assign (eu_description event_in) (e_description event),
           e_location := assign (eu_location event_in) (e_location event),
           e_start_time := assign (eu_start_time event_in) (e_start_time event),
           e_end_time := assign (eu_end_time event_in) (e_end_time event)\<rparr>"

text \<open>The commit of a loaded row: the row of that primary key is replaced.\<close>

definition commit_event :: "event \<Rightarrow> world \<Rightarrow> world" where
  "commit_event event w =
     w\<lparr>events := map (\<lambda>e. if e_id e = e_id event then event else e) (events w)\<rparr>"

definition update_event :: "env \<Rightarrow> world \<Rightarrow> int \<Rightarrow> event_update \<Rightarrow> user \<Rightarrow> world \<times> (error + event)" where
  "update_event env w i event_in current_user =
     (case get_current_active_user env current_user of
        Some err \<Rightarrow> (w, Inl err)
      | None \<Rightarrow>
          (case scalar_one_or_none (filter (\<lambda>e. e_id e = i) (events w)) of
             Inl err \<Rightarrow> (w, Inl err)
           | Inr None \<Rightarrow> (w, Inl (HTTPException 404 ''Event not found''))
           | Inr (Some event) \<Rightarrow>
               if \<not> u_is_superuser current_user \<and> e_organizer_id event \<noteq> Some (u_id current_user)
               then (w, Inl (HTTPException 400 ''Not enough permissions''))
               else let event' = apply_event_update event_in event
                    in (commit_event event' w, Inr event')))"

text \<open>
  \<open>delete_event\<close>: the relationship \<^verbatim>\<open>participants\<close> cascades, so the participations of
  the event go with it.
\<close>

definition delete_event :: "env \<Rightarrow> world \<Rightarrow> int \<Rightarrow> user \<Rightarrow> world \<times> (error + event)" where
  "delete_event env w i current_user =
     (case get_current_active_user env current_user of
        Some err \<Rightarrow> (w, Inl err)
      | None \<Rightarrow>
          (case scalar_one_or_none (filter (\<lambda>e. e_id e = i) (events w)) of
             Inl err \<Rightarrow> (w, Inl err)
           | Inr None \<Rightarrow> (w, Inl (HTTPException 404 ''Event not found''))
           | Inr (Some event) \<Rightarrow>
               if \<not> u_is_superuser current_user \<and> e_organizer_id event \<noteq> Some (u_id current_user)
               then (w, Inl (HTTPException 400 ''Not enough permissions''))
               else (w\<lparr>events := filter (\<lambda>e. e_id e \<noteq> e_id event) (events w),
                       participations :=
                         filter (\<lambda>p. p_event_id p \<noteq> Some (e_id event)) (participations w)\<rparr>,
                     Inr event)))"

section \<open>storage.py\<close>

text \<open>
  \<^verbatim>\<open>SupabaseStorage.__init__\<close>: the three environment variables and the imported
  \<^verbatim>\<open>create_client\<close>, which is \<open>None\<close> when the import failed. An empty string is falsy.
\<close>

definition SupabaseStorage ::
  "string option \<Rightarrow> string option \<Rightarrow> string option \<Rightarrow> (string \<Rightarrow> string \<Rightarrow> client) option
     \<Rightarrow> supabase_storage" where
  "SupabaseStorage env_url env_key env_bucket create_client =
     \<lparr>s_url = env_url, s_key = env_key,
      s_bucket_name = (case env_bucket of None \<Rightarrow> ''campus-storage'' | Some b \<Rightarrow> b),
      s_client =
        (case env_url of
           None \<Rightarrow> None
         | Some u \<Rightarrow>
             (case env_key of
                None \<Rightarrow> None
              | Some k \<Rightarrow>
                  (case create_client of
                     None \<Rightarrow> None
                   | Some mk \<Rightarrow> if u \<noteq> [] \<and> k \<noteq> [] then Some (mk u k) else None)))\<rparr>"

definition is_configured :: "supabase_storage \<Rightarrow> bool" where
  "is_configured s = (s_client s \<noteq> None)"

definition get_public_url :: "supabase_storage \<Rightarrow> string \<Rightarrow> string" where
  "get_public_url s storage_path =
     str_opt (s_url s) @ ''/storage/v1/object/public/'' @ s_bucket_name s @ ''/'' @ storage_path"

definition get_content_type :: "string \<Rightarrow> string" where
  "get_content_type extension =
     (case map_of
             [(''.jpg'', ''image/jpeg''), (''.jpeg'', ''image/jpeg''), (''.png'', ''image/png''),
              (''.webp'', ''image/webp''), (''.pdf'', ''application/pdf''),
              (''.gif'', ''image/gif'')] (lower extension) of
        None \<Rightarrow> ''application/octet-stream''
      | Some t \<Rightarrow> t)"

text \<open>
  The upload inside each \<^verbatim>\<open>try\<close>: the call is made; when it raises, the error is
  printed and the result is \<open>None\<close>, otherwise the public URL.
\<close>

definition try_upload ::
  "supabase_storage \<Rightarrow> client \<Rightarrow> string \<Rightarrow> bytes \<Rightarrow> string \<Rightarrow> string \<Rightarrow> io_call list
     \<Rightarrow> io_call list \<times> string option" where
  "try_upload s c storage_path file_content ext label calls =
     (let calls1 = calls @ [RemoteUpload storage_path file_content (get_content_type ext)]
      in if upload_raises c storage_path then (calls1 @ [Print label], None)
         else (calls1, Some (get_public_url s storage_path)))"

definition storage_upload_profile_image ::
  "supabase_storage \<Rightarrow> int \<Rightarrow> string \<Rightarrow> bytes \<Rightarrow> io_call list \<Rightarrow> io_call list \<times> string option" where
  "storage_upload_profile_image s user_id file_path file_content calls =
     (if \<not> is_configured s then (calls, None)
      else
          let c = the (s_client s);
              ext = lower (path_suffix file_path);
              filename = ''profile_picture'' @ ext;
              storage_path = ''users/'' @ str_int user_id @ ''/profile_picture/'' @ filename;
              calls1 = calls @ [RemoteRemove storage_path]
          in try_upload s c storage_path file_content ext ''Error uploading profile image'' calls1)"

definition storage_upload_verification_document ::
  "supabase_storage \<Rightarrow> string \<Rightarrow> int \<Rightarrow> string \<Rightarrow> bytes \<Rightarrow> io_call list
     \<Rightarrow> io_call list \<times> string option" where
  "storage_upload_verification_document s uuid_hex user_id file_path file_content calls =
     (if \<not> is_configured s then (calls, None)
      else
          let c = the (s_client s);
              ext = lower (path_suffix file_path);
              unique_name = ''id_card_'' @ uuid_hex @ ext;
              storage_path = ''users/'' @ str_int user_id @ ''/verification/'' @ unique_name
          in try_upload s c storage_path file_content ext
               ''Error uploading verification document'' calls)"

definition storage_upload_marketplace_item ::
  "supabase_storage \<Rightarrow> int \<Rightarrow> int \<Rightarrow> string \<Rightarrow> bytes \<Rightarrow> io_call list
     \<Rightarrow> io_call list \<times> string option" where
  "storage_upload_marketplace_item s user_id item_id file_path file_content calls =
     (if \<not> is_configured s then (calls, None)
      else
          let c = the (s_client s);
              ext = lower (path_suffix file_path);
              filename = ''item_image'' @ ext;
              storage_path = ''marketplace/'' @ str_int user_id @ ''/items/'' @ str_int item_id
                             @ ''/'' @ filename
          in try_upload s c storage_path file_content ext
               ''Error uploading marketplace item'' calls)"

definition storage_upload_event_image ::
  "supabase_storage \<Rightarrow> int \<Rightarrow> int option \<Rightarrow> string \<Rightarrow> bytes \<Rightarrow> io_call list
     \<Rightarrow> io_call list \<times> string option" where
  "storage_upload_event_image s event_id organizer_id file_path file_content calls =
     (if \<not> is_configured s then (calls, None)
      else
          let c = the (s_client s);
              ext = lower (path_suffix file_path);
              filename = ''event_image'' @ ext;
              storage_path = ''events/'' @ str_int event_id @ ''/'' @ filename
          in try_upload s c storage_path file_content ext ''Error uploading event image'' calls)"

section \<open>events.py: the image of an event\<close>

definition upload_event_image ::
  "env \<Rightarrow> world \<Rightarrow> int \<Rightarrow> upload_file \<Rightarrow> user \<Rightarrow> world \<times> (error + event)" where
  "upload_event_image env w i file current_user =
     (case get_current_active_user env current_user of
        Some err \<Rightarrow> (w, Inl err)
      | None \<Rightarrow>
          (case scalar_one_or_none (filter (\<lambda>e. e_id e = i) (events w)) of
             Inl err \<Rightarrow> (w, Inl err)
           | Inr None \<Rightarrow> (w, Inl (HTTPException 404 ''Event not found''))
           | Inr (Some event) \<Rightarrow>
               if \<not> u_is_superuser current_user \<and> e_organizer_id event \<noteq> Some (u_id current_user)
               then (w, Inl (HTTPException 403 ''Not enough permissions''))
               else
                 let file_extension = filename_extension (uf_filename file)
                 in if file_extension \<notin> set [''jpg'', ''jpeg'', ''png'', ''webp'']
                    then (w, Inl (HTTPException 400
                                    ''Invalid file type. Only JPG/PNG/WEBP allowed.''))
                    else
                      (case storage_upload_event_image (storage env) (e_id event)
                              (e_organizer_id event) (uf_filename file) (uf_contents file)
                              (io_log w) of
                         (calls1, remote_url) \<Rightarrow>
                           let file_name = ''event_'' @ str_int (e_id event) @ ''.'' @ file_extension
                           in (case url_or_local remote_url ''static/events''
                                       (''static/events/'' @ file_name) (uf_contents file)
                                       (''/static/events/'' @ file_name)
                                       (w\<lparr>io_log := calls1\<rparr>) of
                                 (w1, Inl err) \<Rightarrow> (w1, Inl err)
                               | (w1, Inr image_url) \<Rightarrow>
                                   let event' = event\<lparr>e_image_url := Some image_url\<rparr>
                                   in (commit_event event' w1, Inr event')))))"

section \<open>users.py\<close>

text \<open>
  \<^verbatim>\<open>UserUpdate\<close> of schemas/user.py: every field of \<^verbatim>\<open>UserBase\<close> and the password. The
  outer \<open>None\<close> is a field the request does not set (\<^verbatim>\<open>exclude_unset=True\<close>); an
  optional field that is set may be set to \<^verbatim>\<open>None\<close>.
\<close>

record user_update =
  uu_email :: "string option option"
  uu_is_active :: "bool option option"
  uu_is_superuser :: "bool option"
  uu_full_name :: "string option option"
  uu_phone_number :: "string option option"
  uu_address :: "string option option"
  uu_interests :: "string option option"
  uu_college_name :: "string option option"
  uu_profile_image_url :: "string option option"
  uu_theme_preference :: "string option option"
  uu_college_id :: "int option option"
  uu_role :: "string option option"
  uu_password :: "string option option"

text \<open>The loop \<^verbatim>\<open>for field in update_data: setattr(current_user, field, ...)\<close>.\<close>

definition apply_user_update :: "user_update \<Rightarrow> string option \<Rightarrow> user \<Rightarrow> user" where
  "apply_user_update user_in hashed u =
     u\<lparr>u_email := assign (uu_email user_in) (u_email u),
       u_is_active := assign (uu_is_active user_in) (u_is_active u),
       u_is_superuser := assign (uu_is_superuser user_in) (u_is_superuser u),
       u_full_name := assign (uu_full_name user_in) (u_full_name u),
       u_phone_number := assign (uu_phone_number user_in) (u_phone_number u),
       u_address := assign (uu_address user_in) (u_address u),
       u_interests := assign (uu_interests user_in) (u_interests u),
       u_college_name := assign (uu_college_name user_in) (u_college_name u),
       u_profile_image_url := assign (uu_profile_image_url user_in) (u_profile_image_url u),
       u_theme_preference := assign (uu_theme_preference user_in) (u_theme_preference u),
       u_college_id := assign (uu_college_id user_in) (u_college_id u),
       u_role := assign (uu_role user_in) (u_role u),
       u_hashed_password := assign hashed (u_hashed_password u)\<rparr>"

definition commit_user :: "user \<Rightarrow> world \<Rightarrow> world" where
  "commit_user u w = w\<lparr>users := map (\<lambda>r. if u_id r = u_id u then u else r) (users w)\<rparr>"

definition update_user_me :: "env \<Rightarrow> world \<Rightarrow> user_update \<Rightarrow> user \<Rightarrow> world \<times> (error + user)" where
  "update_user_me env w user_in current_user =
     (case get_current_active_user env current_user of
        Some err \<Rightarrow> (w, Inl err)
      | None \<Rightarrow>
          let hashed =
                (case uu_password user_in of
                   None \<Rightarrow> Inr None
                 | Some password \<Rightarrow>
                     (case get_password_hash env password of
                        Inl err \<Rightarrow> Inl err
                      | Inr h \<Rightarrow> Inr (Some h)))
          in (case hashed of
                Inl err \<Rightarrow> (w, Inl err)
              | Inr hashed_password \<Rightarrow>
                  let user' = apply_user_update user_in hashed_password current_user
                  in (commit_user user' w, Inr user')))"

definition upload_profile_image :: "env \<Rightarrow> world \<Rightarrow> upload_file \<Rightarrow> user \<Rightarrow> world \<times> (error + user)" where
  "upload_profile_image env w file current_user =
     (case get_current_active_user env current_user of
        Some err \<Rightarrow> (w, Inl err)
      | None \<Rightarrow>
          let file_extension = filename_extension (uf_filename file)
          in if file_extension \<notin> set [''jpg'', ''jpeg'', ''png'', ''webp'']
             then (w, Inl (HTTPException 400 ''Invalid file type. Only JPG/PNG/WEBP allowed.''))
             else
               (case storage_upload_profile_image (storage env) (u_id current_user)
                       (uf_filename file) (uf_contents file) (io_log w) of
                  (calls1, remote_url) \<Rightarrow>
                    let file_name = ''user_'' @ str_int (u_id current_user) @ ''.'' @ file_extension
                    in (case url_or_local remote_url ''static/profile_images''
                                (''static/profile_images/'' @ file_name) (uf_contents file)
                                (''/static/profile_images/'' @ file_name)
                                (w\<lparr>io_log := calls1\<rparr>) of
                          (w1, Inl err) \<Rightarrow> (w1, Inl err)
                        | (w1, Inr image_url) \<Rightarrow>
                            let user' = current_user\<lparr>u_profile_image_url := Some image_url\<rparr>
                            in (commit_user user' w1, Inr user'))))"

section \<open>verifications.py\<close>

text \<open>\<^verbatim>\<open>.replace("\\", "/")\<close>; the joined path is taken as written, not normalised.\<close>

definition replace_backslash :: "string \<Rightarrow> string" where
  "replace_backslash s = map (\<lambda>c. if c = CHR 0x5C then CHR ''/'' else c) s"

definition create_verification_request ::
  "env \<Rightarrow> world \<Rightarrow> upload_file \<Rightarrow> user \<Rightarrow> world \<times> (error + string)" where
  "create_verification_request env w file current_user =
     (case get_current_active_user env current_user of
        Some err \<Rightarrow> (w, Inl err)
      | None \<Rightarrow>
          (case scalar_one_or_none
                  (filter (\<lambda>r. vr_user_id r = u_id current_user \<and> vr_status r = ''pending'')
                     (verification_requests w)) of
             Inl err \<Rightarrow> (w, Inl err)
           | Inr (Some existing) \<Rightarrow>
               (w, Inl (HTTPException 400 ''A pending verification request already exists.''))
           | Inr None \<Rightarrow>
               let ext = filename_extension (uf_filename file)
               in if ext \<notin> set [''jpg'', ''jpeg'', ''png'', ''pdf'']
                  then (w, Inl (HTTPException 400 ''Invalid file type. Only JPG/PNG/PDF allowed.''))
                  else
                    (case storage_upload_verification_document (storage env) (uuid4_hex env)
                            (u_id current_user) (uf_filename file) (uf_contents file)
                            (io_log w) of
                       (calls1, remote_url) \<Rightarrow>
                         let file_path = ''static/verifications/id_'' @ str_int (u_id current_user)
                                         @ ''_'' @ uf_filename file
                         in (case url_or_local remote_url ''static/verifications'' file_path
                                     (uf_contents file) (replace_backslash file_path)
                                     (w\<lparr>io_log := calls1\<rparr>) of
                               (w1, Inl err) \<Rightarrow> (w1, Inl err)
                             | (w1, Inr id_card_url) \<Rightarrow>
                                 let db_obj =
                                       \<lparr>vr_id = fresh_id (map vr_id (verification_requests w)),
                                        vr_user_id = u_id current_user,
                                        vr_id_card_url = id_card_url,
                                        vr_status = ''pending'', vr_admin_note = None,
                                        vr_created_at = now w\<rparr>
                                 in (w1\<lparr>verification_requests :=
                                          verification_requests w @ [db_obj]\<rparr>,
                                     Inr ''Verification request submitted successfully'')))))"

definition commit_verification_request :: "verification_request \<Rightarrow> world \<Rightarrow> world" where
  "commit_verification_request vr w =
     w\<lparr>verification_requests :=
         map (\<lambda>r. if vr_id r = vr_id vr then vr else r) (verification_requests w)\<rparr>"

definition approve_request :: "env \<Rightarrow> world \<Rightarrow> int \<Rightarrow> user \<Rightarrow> world \<times> (error + string)" where
  "approve_request env w i current_user =
     (case get_current_active_college_admin env current_user of
        Some err \<Rightarrow> (w, Inl err)
      | None \<Rightarrow>
          (case scalar_one_or_none (filter (\<lambda>r. vr_id r = i) (verification_requests w)) of
             Inl err \<Rightarrow> (w, Inl err)
           | Inr None \<Rightarrow> (w, Inl (HTTPException 404 ''Verification request not found''))
           | Inr (Some vr) \<Rightarrow>
               (commit_verification_request (vr\<lparr>vr_status := ''approved''\<rparr>) w,
                Inr ''Approved'')))"

definition reject_request ::
  "env \<Rightarrow> world \<Rightarrow> int \<Rightarrow> string option \<Rightarrow> user \<Rightarrow> world \<times> (error + string)" where
  "reject_request env w i note current_user =
     (case get_current_active_college_admin env current_user of
        Some err \<Rightarrow> (w, Inl err)
      | None \<Rightarrow>
          (case scalar_one_or_none (filter (\<lambda>r. vr_id r = i) (verification_requests w)) of
             Inl err \<Rightarrow> (w, Inl err)
           | Inr None \<Rightarrow> (w, Inl (HTTPException 404 ''Verification request not found''))
           | Inr (Some vr) \<Rightarrow>
               (commit_verification_request
                  (vr\<lparr>vr_status := ''rejected'', vr_admin_note := note\<rparr>) w,
                Inr ''Rejected'')))"

section \<open>marketplace.py\<close>

definition commit_item :: "marketplace_item \<Rightarrow> world \<Rightarrow> world" where
  "commit_item item w =
     w\<lparr>marketplace_items :=
         map (\<lambda>r. if mi_id r = mi_id item then item else r) (marketplace_items w)\<rparr>"

definition create_item ::
  "env \<Rightarrow> world \<Rightarrow> string \<Rightarrow> string \<Rightarrow> real \<Rightarrow> string \<Rightarrow> upload_file option \<Rightarrow> user
     \<Rightarrow> world \<times> (error + marketplace_item)" where
  "create_item env w title description price category file current_user =
     (case get_current_active_user env current_user of
        Some err \<Rightarrow> (w, Inl err)
      | None \<Rightarrow>
          let db_obj =
                \<lparr>mi_id = fresh_id (map mi_id (marketplace_items w)),
                 mi_owner_id = u_id current_user, mi_title = title,
                 mi_description = description, mi_price = price, mi_category = category,
                 mi_image_url = None, mi_is_available = True, mi_created_at = now w\<rparr>;
              w1 = w\<lparr>marketplace_items := marketplace_items w @ [db_obj]\<rparr>
          in (case file of
                None \<Rightarrow> (w1, Inr db_obj)
              | Some f \<Rightarrow>
                  let ext = filename_extension (uf_filename f)
                  in if ext \<notin> set [''jpg'', ''jpeg'', ''png'', ''webp'']
                     then (w1, Inl (HTTPException 400
                                      ''Invalid file type. Only JPG/PNG/WEBP allowed.''))
                     else
                       (case storage_upload_marketplace_item (storage env) (u_id current_user)
                               (mi_id db_obj) (uf_filename f) (uf_contents f) (io_log w1) of
                          (calls1, remote_url) \<Rightarrow>
                            let safe_name = str_int (u_id current_user) @ ''_'' @ uf_filename f;
                                image_path = ''static/marketplace/'' @ safe_name
                            in (case url_or_local remote_url ''static/marketplace'' image_path
                                        (uf_contents f) (replace_backslash image_path)
                                        (w1\<lparr>io_log := calls1\<rparr>) of
                                  (w2, Inl err) \<Rightarrow> (w2, Inl err)
                                | (w2, Inr image_url) \<Rightarrow>
                                    let db_obj' = db_obj\<lparr>mi_image_url := Some image_url\<rparr>
                                    in (commit_item db_obj' w2, Inr db_obj')))))"

section \<open>The router, the invariant and the example data\<close>

text \<open>One request to the modelled endpoints, and the state the store is left in.\<close>

datatype request =
    ReadEvents user nat nat
  | CreateEvent event_create user
  | ReadEvent int
  | UpdateEvent int event_update user
  | DeleteEvent int user
  | UploadEventImage int upload_file user
  | UpdateUserMe user_update user
  | UploadProfileImage upload_file user
  | CreateVerificationRequest upload_file user
  | ApproveRequest int user
  | RejectRequest int "string option" user
  | CreateItem string string real string "upload_file option" user

fun handle :: "env \<Rightarrow> world \<Rightarrow> request \<Rightarrow> world" where
  "handle env w (ReadEvents u skip limit) = w"
| "handle env w (CreateEvent event_in u) = fst (create_event env w event_in u)"
| "handle env w (ReadEvent i) = w"
| "handle env w (UpdateEvent i event_in u) = fst (update_event env w i event_in u)"
| "handle env w (DeleteEvent i u) = fst (delete_event env w i u)"
| "handle env w (UploadEventImage i file u) = fst (upload_event_image env w i file u)"
| "handle env w (UpdateUserMe user_in u) = fst (update_user_me env w user_in u)"
| "handle env w (UploadProfileImage file u) = fst (upload_profile_image env w file u)"
| "handle env w (CreateVerificationRequest file u) =
     fst (create_verification_request env w file u)"
| "handle env w (ApproveRequest i u) = fst (approve_request env w i u)"
| "handle env w (RejectRequest i note u) = fst (reject_request env w i note u)"
| "handle env w (CreateItem title description price category file u) =
     fst (create_item env w title description price category file u)"

text \<open>
  The invariant of the verification workflow: no user id has two requests in status
  \<open>pending\<close>.
\<close>

definition at_most_one_pending :: "verification_request list \<Rightarrow> bool" where
  "at_most_one_pending vrs =
     list_all
       (\<lambda>r. length (filter (\<lambda>r'. vr_user_id r' = vr_user_id r \<and> vr_status r' = ''pending'') vrs)
             \<le> 1) vrs"

text \<open>The request \<^verbatim>\<open>{}\<close>: no field is set.\<close>

definition empty_update :: user_update where
  "empty_update =
     \<lparr>uu_email = None, uu_is_active = None, uu_is_superuser = None, uu_full_name = None,
      uu_phone_number = None, uu_address = None, uu_interests = None, uu_college_name = None,
      uu_profile_image_url = None, uu_theme_preference = None, uu_college_id = None,
      uu_role = None, uu_password = None\<rparr>"

text \<open>
  Example data: two colleges, an admin and a student of college 1, a student of college
  2, a superuser; three events; no remote object store.
\<close>

definition demo_user :: "int \<Rightarrow> string \<Rightarrow> int option \<Rightarrow> bool \<Rightarrow> user" where
  "demo_user i r c su =
     \<lparr>u_id = i, u_full_name = Some ''Ada'', u_email = Some ''ada@campus.test'',
      u_hashed_password = ''x'', u_role = Some r, u_college_id = c, u_phone_number = None,
      u_address = None, u_interests = None, u_college_name = None,
      u_profile_image_url = None, u_theme_preference = Some ''system'',
      u_is_active = Some True, u_is_superuser = su, u_events_count = Some 0,
      u_buddies_count = Some 0\<rparr>"

definition demo_event :: "int \<Rightarrow> string \<Rightarrow> int \<Rightarrow> int option \<Rightarrow> event" where
  "demo_event i t org c =
     \<lparr>e_id = i, e_title = t, e_description = None, e_location = None, e_start_time = None,
      e_end_time = None, e_image_url = None, e_organizer_id = Some org, e_college_id = c,
      e_created_at = 0\<rparr>"

definition demo_request :: "int \<Rightarrow> int \<Rightarrow> string \<Rightarrow> verification_request" where
  "demo_request i uid st =
     \<lparr>vr_id = i, vr_user_id = uid, vr_id_card_url = ''static/verifications/id.pdf'',
      vr_status = st, vr_admin_note = None, vr_created_at = 0\<rparr>"

definition demo_env :: env where
  "demo_env =
     \<lparr>get_current_active_user = spec_current_active_user,
      get_current_active_college_admin = spec_current_active_college_admin,
      get_password_hash = (\<lambda>p. Inr ''hashed''),
      notification_commit_raises = False, broadcast_raises = False, uuid4_hex = ''0a'',
      storage = SupabaseStorage None None None None\<rparr>"

definition demo_world :: world where
  "demo_world =
     \<lparr>users = [demo_user 1 ''college_admin'' (Some 1) False,
               demo_user 2 ''student'' (Some 1) False,
               demo_user 3 ''student'' (Some 2) False,
               demo_user 4 ''super_admin'' None True],
      events = [demo_event 1 ''Hack Night'' 1 (Some 1), demo_event 2 ''Quiz'' 1 (Some 1),
                demo_event 3 ''Fair'' 9 (Some 2)],
      participations = [], notifications = [], marketplace_items = [],
      verification_requests = [demo_request 1 3 ''pending'', demo_request 2 2 ''rejected''],
      io_log = [], now = 7, local_dirs = []\<rparr>"

section \<open>Listing events\<close>

lemma page_of_filter_subset:
  "set (take l (drop s (filter P xs))) \<subseteq> {x \<in> set xs. P x}"
  by (auto dest!: in_set_takeD in_set_dropD)

text \<open>
  C1, as amended. For an actor the dependency admits, \<open>read_events\<close> returns the page
  (\<open>skip\<close> rows dropped, at most \<open>limit\<close> rows kept, in the order of the store) of the
  events whose \<open>college_id\<close> equals the actor's when the actor is not a superuser: only
  such events are returned, and exactly all of them when \<open>skip = 0\<close> and \<open>limit\<close> is at
  least their number. For a superuser the page is taken from the events of all colleges.
\<close>

theorem read_events_page:
  assumes "get_current_active_user env actor = None"
  shows "\<exists>evs. read_events env w actor skip limit = Inr evs \<and>
           (\<not> u_is_superuser actor \<longrightarrow>
              evs = take limit (drop skip
                      (filter (\<lambda>e. e_college_id e = u_college_id actor) (events w)))
              \<and> (\<forall>e \<in> set evs. e \<in> set (events w) \<and> e_college_id e = u_college_id actor)
              \<and> (skip = 0
                   \<and> length (filter (\<lambda>e. e_college_id e = u_college_id actor) (events w)) \<le> limit
                   \<longrightarrow> set evs = {e \<in> set (events w). e_college_id e = u_college_id actor}))
           \<and> (u_is_superuser actor \<longrightarrow>
              evs = take limit (drop skip (events w))
              \<and> (skip = 0 \<and> length (events w) \<le> limit \<longrightarrow> evs = events w))"
  using assms
    page_of_filter_subset[of limit skip "\<lambda>e. e_college_id e = u_college_id actor" "events w"]
  by (auto simp: read_events_def)

theorem read_events_page_witness:
  "get_current_active_user demo_env (demo_user 2 ''student'' (Some 1) False) = None
   \<and> \<not> u_is_superuser (demo_user 2 ''student'' (Some 1) False)
   \<and> read_events demo_env demo_world (demo_user 2 ''student'' (Some 1) False) 0 100
       = Inr [demo_event 1 ''Hack Night'' 1 (Some 1), demo_event 2 ''Quiz'' 1 (Some 1)]
   \<and> get_current_active_user demo_env (demo_user 4 ''super_admin'' None True) = None
   \<and> u_is_superuser (demo_user 4 ''super_admin'' None True)
   \<and> read_events demo_env demo_world (demo_user 4 ''super_admin'' None True) 0 100
       = Inr (events demo_world)"
  using read_events_page[of demo_env "demo_user 2 ''student'' (Some 1) False" demo_world 0 100]
        read_events_page[of demo_env "demo_user 4 ''super_admin'' None True" demo_world 0 100]
  by (simp add: demo_env_def demo_world_def demo_user_def demo_event_def
        spec_current_active_user_def)

text \<open>
  C1 as stated fails: with \<open>limit = 1\<close> the student of college 1 is returned one of the
  two events of that college.
\<close>

theorem read_events_exactly_counterexample:
  "\<not> u_is_superuser (demo_user 2 ''student'' (Some 1) False)
   \<and> read_events demo_env demo_world (demo_user 2 ''student'' (Some 1) False) 0 1
       = Inr [demo_event 1 ''Hack Night'' 1 (Some 1)]
   \<and> demo_event 2 ''Quiz'' 1 (Some 1) \<in> set (events demo_world)
   \<and> e_college_id (demo_event 2 ''Quiz'' 1 (Some 1))
       = u_college_id (demo_user 2 ''student'' (Some 1) False)
   \<and> demo_event 2 ''Quiz'' 1 (Some 1) \<notin> set [demo_event 1 ''Hack Night'' 1 (Some 1)]"
  by (simp add: read_events_def demo_env_def demo_world_def demo_user_def demo_event_def
        spec_current_active_user_def)

section \<open>Queries for one row\<close>

lemma scalar_one_or_none_Some:
  "scalar_one_or_none xs = Inr (Some x) \<longleftrightarrow> xs = [x]"
  by (cases xs rule: scalar_one_or_none.cases) auto

lemma scalar_one_or_none_None:
  "scalar_one_or_none xs = Inr None \<longleftrightarrow> xs = []"
  by (cases xs rule: scalar_one_or_none.cases) auto

lemma filter_key_distinct:
  assumes "distinct (map key xs)" and "x \<in> set xs"
  shows "filter (\<lambda>r. key r = key x) xs = [x]"
  using assms
proof (induction xs)
  case Nil
  then show ?case by simp
next
  case (Cons y ys)
  show ?case
  proof (cases "y = x")
    case True
    with Cons.prems have "\<forall>r \<in> set ys. key r \<noteq> key x" by (auto simp: image_iff)
    then have "filter (\<lambda>r. key r = key x) ys = []" by (simp add: filter_empty_conv)
    with True show ?thesis by simp
  next
    case False
    with Cons.prems have "x \<in> set ys" and "key y \<noteq> key x" and "distinct (map key ys)"
      by (auto simp: image_iff)
    with Cons.IH show ?thesis by simp
  qed
qed

lemma filter_key_absent:
  "i \<notin> set (map key xs) \<Longrightarrow> filter (\<lambda>r. key r = i) xs = []"
  by (auto simp: filter_empty_conv)

section \<open>Creating an event and its notification\<close>

text \<open>
  C2, evaluated. The admin of college 1 creates an event while the commit of the
  notification raises. The event is committed and stays in the store and the exception is
  printed and dropped, but the request ends in an error (status 500), not in the created
  event: the failed commit has expired the object that \<open>create_event\<close> returns. When
  only the broadcast raises, the created event is returned.
\<close>

theorem create_event_notification_commit_failure:
  "get_current_active_college_admin (demo_env\<lparr>notification_commit_raises := True\<rparr>)
       (demo_user 1 ''college_admin'' (Some 1) False) = None
   \<and> create_event (demo_env\<lparr>notification_commit_raises := True\<rparr>) demo_world
        \<lparr>ec_title = ''Open Day'', ec_description = None, ec_location = None,
         ec_start_time = None, ec_end_time = None\<rparr>
        (demo_user 1 ''college_admin'' (Some 1) False)
       = (demo_world
            \<lparr>events := events demo_world
                         @ [(demo_event 4 ''Open Day'' 1 (Some 1))\<lparr>e_created_at := 7\<rparr>],
             io_log := [Print ''Notification Error'']\<rparr>,
          Inl ExpiredInstanceError)
   \<and> snd (create_event (demo_env\<lparr>broadcast_raises := True\<rparr>) demo_world
        \<lparr>ec_title = ''Open Day'', ec_description = None, ec_location = None,
         ec_start_time = None, ec_end_time = None\<rparr>
        (demo_user 1 ''college_admin'' (Some 1) False))
       = Inr ((demo_event 4 ''Open Day'' 1 (Some 1))\<lparr>e_created_at := 7\<rparr>)
   \<and> events (fst (create_event (demo_env\<lparr>broadcast_raises := True\<rparr>) demo_world
        \<lparr>ec_title = ''Open Day'', ec_description = None, ec_location = None,
         ec_start_time = None, ec_end_time = None\<rparr>
        (demo_user 1 ''college_admin'' (Some 1) False)))
       = events demo_world @ [(demo_event 4 ''Open Day'' 1 (Some 1))\<lparr>e_created_at := 7\<rparr>]
   \<and> length (notifications (fst (create_event (demo_env\<lparr>broadcast_raises := True\<rparr>)
        demo_world
        \<lparr>ec_title = ''Open Day'', ec_description = None, ec_location = None,
         ec_start_time = None, ec_end_time = None\<rparr>
        (demo_user 1 ''college_admin'' (Some 1) False)))) = 1"
  by (simp add: create_event_def broadcast_new_event_def Let_def demo_env_def demo_world_def
        demo_user_def demo_event_def spec_current_active_college_admin_def fresh_id_def)

section \<open>The verification workflow\<close>

lemma at_most_one_pending_iff:
  "at_most_one_pending vrs \<longleftrightarrow>
     (\<forall>uid. length (filter (\<lambda>r. vr_user_id r = uid \<and> vr_status r = ''pending'') vrs) \<le> 1)"
proof
  assume inv: "at_most_one_pending vrs"
  show "\<forall>uid. length (filter (\<lambda>r. vr_user_id r = uid \<and> vr_status r = ''pending'') vrs) \<le> 1"
  proof
    fix uid
    show "length (filter (\<lambda>r. vr_user_id r = uid \<and> vr_status r = ''pending'') vrs) \<le> 1"
    proof (cases "filter (\<lambda>r. vr_user_id r = uid \<and> vr_status r = ''pending'') vrs")
      case Nil
      then show ?thesis by simp
    next
      case (Cons r rs)
      then have "r \<in> set (filter (\<lambda>r. vr_user_id r = uid \<and> vr_status r = ''pending'') vrs)"
        by simp
      then have mem: "r \<in> set vrs" and uid: "vr_user_id r = uid" by auto
      from inv mem have
        "length (filter (\<lambda>r'. vr_user_id r' = vr_user_id r \<and> vr_status r' = ''pending'') vrs) \<le> 1"
        by (simp add: at_most_one_pending_def list_all_iff)
      with uid show ?thesis by simp
    qed
  qed
next
  assume "\<forall>uid. length (filter (\<lambda>r. vr_user_id r = uid \<and> vr_status r = ''pending'') vrs) \<le> 1"
  then show "at_most_one_pending vrs"
    by (simp add: at_most_one_pending_def list_all_iff)
qed

lemma pending_after_decision:
  assumes "vr_status v \<noteq> ''pending''"
  shows "length (filter (\<lambda>r. vr_user_id r = uid \<and> vr_status r = ''pending'')
                   (map (\<lambda>r. if vr_id r = i then v else r) vrs))
         \<le> length (filter (\<lambda>r. vr_user_id r = uid \<and> vr_status r = ''pending'') vrs)"
  using assms by (induction vrs) auto

lemma commit_decision_preserves:
  assumes "at_most_one_pending (verification_requests w)" and "vr_status v \<noteq> ''pending''"
  shows "at_most_one_pending (verification_requests (commit_verification_request v w))"
proof -
  have "length (filter (\<lambda>r. vr_user_id r = uid \<and> vr_status r = ''pending'')
                   (map (\<lambda>r. if vr_id r = vr_id v then v else r) (verification_requests w))) \<le> 1"
    for uid
    using pending_after_decision[OF assms(2), of uid "vr_id v" "verification_requests w"] assms(1)
    unfolding at_most_one_pending_iff by (meson le_trans)
  then show ?thesis
    unfolding at_most_one_pending_iff commit_verification_request_def by simp
qed

lemma approve_request_preserves:
  assumes "at_most_one_pending (verification_requests w)"
  shows "at_most_one_pending (verification_requests (fst (approve_request env w i reviewer)))"
  using assms commit_decision_preserves[OF assms]
  by (auto simp: approve_request_def split: option.splits sum.splits)

lemma reject_request_preserves:
  assumes "at_most_one_pending (verification_requests w)"
  shows "at_most_one_pending (verification_requests (fst (reject_request env w i note reviewer)))"
  using assms commit_decision_preserves[OF assms]
  by (auto simp: reject_request_def split: option.splits sum.splits)

lemma url_or_local_requests:
  assumes "url_or_local remote_url upload_dir path contents local_url w = (w1, res)"
  shows "verification_requests w1 = verification_requests w"
  using assms
  by (auto simp: url_or_local_def write_local_file_def mkdir_parents_def Let_def
      split: option.splits if_splits)

lemma new_pending_request_preserves:
  assumes "at_most_one_pending vrs"
    and "filter (\<lambda>r. vr_user_id r = uid \<and> vr_status r = ''pending'') vrs = []"
    and "vr_user_id v = uid"
  shows "at_most_one_pending (vrs @ [v])"
  using assms unfolding at_most_one_pending_iff
  by (auto simp: filter_empty_conv)

lemma submitted_request_preserves:
  assumes "at_most_one_pending (verification_requests w)"
    and "\<And>url. at_most_one_pending (verification_requests w @ [g url])"
  shows "at_most_one_pending
           (verification_requests
              (fst (case url_or_local remote_url upload_dir path contents local_url
                           (w\<lparr>io_log := calls\<rparr>) of
                      (w1, Inl err) \<Rightarrow> (w1, Inl err)
                    | (w1, Inr url) \<Rightarrow>
                        (w1\<lparr>verification_requests := verification_requests w @ [g url]\<rparr>,
                         Inr m))))"
proof (cases "url_or_local remote_url upload_dir path contents local_url (w\<lparr>io_log := calls\<rparr>)")
  case (Pair w1 res)
  then show ?thesis
    using url_or_local_requests[OF Pair] assms by (cases res) simp_all
qed

lemma create_verification_request_preserves:
  assumes "at_most_one_pending (verification_requests w)"
  shows "at_most_one_pending
           (verification_requests (fst (create_verification_request env w file actor)))"
proof -
  let ?q = "filter (\<lambda>r. vr_user_id r = u_id actor \<and> vr_status r = ''pending'')
              (verification_requests w)"
  show ?thesis
  proof (cases "?q = []")
    case False
    then have "scalar_one_or_none ?q \<noteq> Inr None"
      by (simp add: scalar_one_or_none_None)
    then show ?thesis
      using assms
      by (simp add: create_verification_request_def split: option.splits sum.splits)
  next
    case True
    have new: "at_most_one_pending (verification_requests w @
                 [\<lparr>vr_id = i, vr_user_id = u_id actor, vr_id_card_url = url,
                   vr_status = ''pending'', vr_admin_note = None, vr_created_at = t\<rparr>])"
      for i url t
      using assms True by (rule new_pending_request_preserves) simp
    show ?thesis
      using assms True
      by (simp add: create_verification_request_def Let_def new submitted_request_preserves
          split: option.splits prod.splits)
  qed
qed

lemma create_verification_request_conflict:
  assumes "get_current_active_user env actor = None"
    and "at_most_one_pending (verification_requests w)"
    and "r \<in> set (verification_requests w)" "vr_user_id r = u_id actor" "vr_status r = ''pending''"
  shows "create_verification_request env w file actor =
           (w, Inl (HTTPException 400 ''A pending verification request already exists.''))"
proof -
  let ?q = "filter (\<lambda>r. vr_user_id r = u_id actor \<and> vr_status r = ''pending'') (verification_requests w)"
  have "r \<in> set ?q" using assms by simp
  moreover have "length ?q \<le> 1" using assms(2) by (simp add: at_most_one_pending_iff)
  ultimately have "?q = [r]" by (cases ?q) auto
  then show ?thesis using assms(1)
    by (simp add: create_verification_request_def)
qed


lemma stored_url_requests:
  assumes "\<And>url w1. verification_requests (g url w1) = verification_requests w1"
  shows "verification_requests
           (fst (case url_or_local remote_url upload_dir path contents local_url w of
                   (w1, Inl err) \<Rightarrow> (w1, Inl err)
                 | (w1, Inr url) \<Rightarrow> (g url w1, Inr (f url))))
         = verification_requests w"
proof (cases "url_or_local remote_url upload_dir path contents local_url w")
  case (Pair w1 res)
  then show ?thesis
    using url_or_local_requests[OF Pair] assms by (cases res) simp_all
qed

lemma commit_event_requests [simp]:
  "verification_requests (commit_event e w) = verification_requests w"
  by (simp add: commit_event_def)

lemma commit_user_requests [simp]:
  "verification_requests (commit_user u w) = verification_requests w"
  by (simp add: commit_user_def)

lemma commit_item_requests [simp]:
  "verification_requests (commit_item u w) = verification_requests w"
  by (simp add: commit_item_def)

lemma create_event_requests:
  "verification_requests (fst (create_event env w event_in u)) = verification_requests w"
  by (simp add: create_event_def broadcast_new_event_def Let_def split: option.splits)

lemma update_event_requests:
  "verification_requests (fst (update_event env w i event_in u)) = verification_requests w"
  by (simp add: update_event_def Let_def split: option.splits sum.splits)

lemma delete_event_requests:
  "verification_requests (fst (delete_event env w i u)) = verification_requests w"
  by (simp add: delete_event_def Let_def split: option.splits sum.splits)

lemma upload_event_image_requests:
  "verification_requests (fst (upload_event_image env w i file u)) = verification_requests w"
proof -
  have tail: "verification_requests
           (fst (case url_or_local remote_url upload_dir path contents local_url w0 of
                   (w1, Inl err) \<Rightarrow> (w1, Inl err)
                 | (w1, Inr url) \<Rightarrow> (commit_event (f url) w1, Inr (f url))))
         = verification_requests w0"
    for remote_url upload_dir path contents local_url w0 and f :: "string \<Rightarrow> event"
    by (rule stored_url_requests) simp
  show ?thesis
    by (simp add: upload_event_image_def Let_def tail split: option.splits sum.splits prod.splits)
qed

lemma update_user_me_requests:
  "verification_requests (fst (update_user_me env w user_in u)) = verification_requests w"
  by (simp add: update_user_me_def Let_def split: option.splits sum.splits)

lemma upload_profile_image_requests:
  "verification_requests (fst (upload_profile_image env w file u)) = verification_requests w"
proof -
  have tail: "verification_requests
           (fst (case url_or_local remote_url upload_dir path contents local_url w0 of
                   (w1, Inl err) \<Rightarrow> (w1, Inl err)
                 | (w1, Inr url) \<Rightarrow> (commit_user (f url) w1, Inr (f url))))
         = verification_requests w0"
    for remote_url upload_dir path contents local_url w0 and f :: "string \<Rightarrow> user"
    by (rule stored_url_requests) simp
  show ?thesis
    by (simp add: upload_profile_image_def Let_def tail split: option.splits prod.splits)
qed

lemma create_item_requests:
  "verification_requests (fst (create_item env w t d p c file u)) = verification_requests w"
proof -
  have tail: "verification_requests
           (fst (case url_or_local remote_url upload_dir path contents local_url w0 of
                   (w1, Inl err) \<Rightarrow> (w1, Inl err)
                 | (w1, Inr url) \<Rightarrow> (commit_item (f url) w1, Inr (f url))))
         = verification_requests w0"
    for remote_url upload_dir path contents local_url w0 and f :: "string \<Rightarrow> marketplace_item"
    by (rule stored_url_requests) simp
  show ?thesis
    by (simp add: create_item_def Let_def tail split: option.splits prod.splits)
qed

lemma handle_preserves:
  assumes "at_most_one_pending (verification_requests w)"
  shows "at_most_one_pending (verification_requests (handle env w req))"
  using assms
  by (cases req)
     (simp_all add: create_event_requests update_event_requests delete_event_requests
        upload_event_image_requests update_user_me_requests upload_profile_image_requests
        create_item_requests create_verification_request_preserves approve_request_preserves
        reject_request_preserves)

lemma fold_handle_preserves:
  assumes "at_most_one_pending (verification_requests w)"
  shows "at_most_one_pending (verification_requests (fold (\<lambda>req w. handle env w req) reqs w))"
  using assms by (induction reqs arbitrary: w) (simp_all add: handle_preserves)

text \<open>
  C3. In a store where no user has two pending requests: an actor whom the dependency
  admits and who has a pending request gets the error
  \<open>400 A pending verification request already exists.\<close> for every file, and the store
  is unchanged; every request to a modelled endpoint, and so every sequence of them,
  leaves a store where no user has two pending requests.
\<close>

theorem one_pending_request_per_user:
  assumes "at_most_one_pending (verification_requests w)"
  shows "(get_current_active_user env actor = None
          \<and> (\<exists>r \<in> set (verification_requests w).
                vr_user_id r = u_id actor \<and> vr_status r = ''pending'')
          \<longrightarrow> create_verification_request env w file actor =
                (w, Inl (HTTPException 400 ''A pending verification request already exists.'')))
       \<and> at_most_one_pending (verification_requests (handle env w req))
       \<and> at_most_one_pending
           (verification_requests (fold (\<lambda>req w. handle env w req) reqs w))"
  using assms create_verification_request_conflict[OF _ assms, of env actor _ "file"]
    handle_preserves[OF assms, of env req] fold_handle_preserves[OF assms, of env reqs]
  by blast

theorem one_pending_request_per_user_witness:
  "at_most_one_pending (verification_requests demo_world)
   \<and> get_current_active_user demo_env (demo_user 3 ''student'' (Some 2) False) = None
   \<and> demo_request 1 3 ''pending'' \<in> set (verification_requests demo_world)
   \<and> vr_user_id (demo_request 1 3 ''pending'') = u_id (demo_user 3 ''student'' (Some 2) False)
   \<and> create_verification_request demo_env demo_world
        \<lparr>uf_filename = ''id.png'', uf_contents = ''png bytes''\<rparr>
        (demo_user 3 ''student'' (Some 2) False)
       = (demo_world, Inl (HTTPException 400 ''A pending verification request already exists.''))
   \<and> at_most_one_pending (verification_requests
        (handle demo_env demo_world
           (CreateVerificationRequest \<lparr>uf_filename = ''id.png'', uf_contents = ''png bytes''\<rparr>
              (demo_user 2 ''student'' (Some 1) False))))"
proof -
  have inv: "at_most_one_pending (verification_requests demo_world)"
    by (simp add: at_most_one_pending_def demo_world_def demo_request_def)
  have adm: "get_current_active_user demo_env (demo_user 3 ''student'' (Some 2) False) = None"
    by (simp add: demo_env_def spec_current_active_user_def)
  have mem: "demo_request 1 3 ''pending'' \<in> set (verification_requests demo_world)"
    by (simp add: demo_world_def)
  have own: "vr_user_id (demo_request 1 3 ''pending'') = u_id (demo_user 3 ''student'' (Some 2) False)"
    "vr_status (demo_request 1 3 ''pending'') = ''pending''"
    by (simp_all add: demo_request_def demo_user_def)
  show ?thesis
    using one_pending_request_per_user[OF inv, of demo_env "demo_user 3 ''student'' (Some 2) False"
        "\<lparr>uf_filename = ''id.png'', uf_contents = ''png bytes''\<rparr>"
        "CreateVerificationRequest \<lparr>uf_filename = ''id.png'', uf_contents = ''png bytes''\<rparr>
              (demo_user 2 ''student'' (Some 1) False)" "[]"]
      inv adm mem own
    by blast
qed

text \<open>
  C4. For a reviewer the college-admin dependency admits, on a store whose request ids
  are distinct (the primary key): an id that is not in the table gives
  \<open>404 Verification request not found\<close> and an unchanged store; an id that is in the table
  gives success, and the row of that id gets status \<open>approved\<close>, respectively \<open>rejected\<close>
  and the note, whatever its status was.
\<close>

theorem decision_on_request:
  assumes "get_current_active_college_admin env reviewer = None"
    and "distinct (map vr_id (verification_requests w))"
  shows "(i \<notin> set (map vr_id (verification_requests w)) \<longrightarrow>
            approve_request env w i reviewer =
              (w, Inl (HTTPException 404 ''Verification request not found''))
            \<and> reject_request env w i note reviewer =
              (w, Inl (HTTPException 404 ''Verification request not found'')))
       \<and> (\<forall>vr \<in> set (verification_requests w).
            approve_request env w (vr_id vr) reviewer =
              (w\<lparr>verification_requests :=
                   map (\<lambda>r. if vr_id r = vr_id vr then vr\<lparr>vr_status := ''approved''\<rparr> else r)
                     (verification_requests w)\<rparr>, Inr ''Approved'')
            \<and> reject_request env w (vr_id vr) note reviewer =
              (w\<lparr>verification_requests :=
                   map (\<lambda>r. if vr_id r = vr_id vr
                             then vr\<lparr>vr_status := ''rejected'', vr_admin_note := note\<rparr> else r)
                     (verification_requests w)\<rparr>, Inr ''Rejected''))"
proof (intro conjI impI ballI)
  assume "i \<notin> set (map vr_id (verification_requests w))"
  then have "filter (\<lambda>r. vr_id r = i) (verification_requests w) = []"
    by (rule filter_key_absent)
  then show "approve_request env w i reviewer =
              (w, Inl (HTTPException 404 ''Verification request not found''))"
    and "reject_request env w i note reviewer =
              (w, Inl (HTTPException 404 ''Verification request not found''))"
    using assms(1) by (simp_all add: approve_request_def reject_request_def)
next
  fix vr assume "vr \<in> set (verification_requests w)"
  then have q: "filter (\<lambda>r. vr_id r = vr_id vr) (verification_requests w) = [vr]"
    using assms(2) by (simp add: filter_key_distinct)
  show "approve_request env w (vr_id vr) reviewer =
              (w\<lparr>verification_requests :=
                   map (\<lambda>r. if vr_id r = vr_id vr then vr\<lparr>vr_status := ''approved''\<rparr> else r)
                     (verification_requests w)\<rparr>, Inr ''Approved'')"
    using assms(1) q by (simp add: approve_request_def commit_verification_request_def)
  show "reject_request env w (vr_id vr) note reviewer =
              (w\<lparr>verification_requests :=
                   map (\<lambda>r. if vr_id r = vr_id vr
                             then vr\<lparr>vr_status := ''rejected'', vr_admin_note := note\<rparr> else r)
                     (verification_requests w)\<rparr>, Inr ''Rejected'')"
    using assms(1) q by (simp add: reject_request_def commit_verification_request_def)
qed

theorem decision_on_request_witness:
  "get_current_active_college_admin demo_env (demo_user 1 ''college_admin'' (Some 1) False) = None
   \<and> distinct (map vr_id (verification_requests demo_world))
   \<and> 99 \<notin> set (map vr_id (verification_requests demo_world))
   \<and> approve_request demo_env demo_world 99 (demo_user 1 ''college_admin'' (Some 1) False)
       = (demo_world, Inl (HTTPException 404 ''Verification request not found''))
   \<and> demo_request 2 2 ''rejected'' \<in> set (verification_requests demo_world)
   \<and> approve_request demo_env demo_world 2 (demo_user 1 ''college_admin'' (Some 1) False)
       = (demo_world\<lparr>verification_requests :=
            [demo_request 1 3 ''pending'', demo_request 2 2 ''approved'']\<rparr>, Inr ''Approved'')
   \<and> reject_request demo_env demo_world 2 (Some ''blurred'')
        (demo_user 1 ''college_admin'' (Some 1) False)
       = (demo_world\<lparr>verification_requests :=
            [demo_request 1 3 ''pending'',
             (demo_request 2 2 ''rejected'')\<lparr>vr_admin_note := Some ''blurred''\<rparr>]\<rparr>,
          Inr ''Rejected'')"
proof -
  have adm: "get_current_active_college_admin demo_env
               (demo_user 1 ''college_admin'' (Some 1) False) = None"
    by (simp add: demo_env_def demo_user_def spec_current_active_college_admin_def)
  have pk: "distinct (map vr_id (verification_requests demo_world))"
    by (simp add: demo_world_def demo_request_def)
  have absent: "99 \<notin> set (map vr_id (verification_requests demo_world))"
    by (simp add: demo_world_def demo_request_def)
  have mem: "demo_request 2 2 ''rejected'' \<in> set (verification_requests demo_world)"
    by (simp add: demo_world_def)
  have i: "vr_id (demo_request 2 2 ''rejected'') = 2"
    by (simp add: demo_request_def)
  have rows:
    "map (\<lambda>r. if vr_id r = 2 then (demo_request 2 2 ''rejected'')\<lparr>vr_status := ''approved''\<rparr>
               else r) (verification_requests demo_world)
       = [demo_request 1 3 ''pending'', demo_request 2 2 ''approved'']"
    "map (\<lambda>r. if vr_id r = 2
               then (demo_request 2 2 ''rejected'')
                      \<lparr>vr_status := ''rejected'', vr_admin_note := Some ''blurred''\<rparr>
               else r) (verification_requests demo_world)
       = [demo_request 1 3 ''pending'',
          (demo_request 2 2 ''rejected'')\<lparr>vr_admin_note := Some ''blurred''\<rparr>]"
    by (simp_all add: demo_world_def demo_request_def)
  from decision_on_request[OF adm pk, of 99 "Some ''blurred''"] absent mem
  have "approve_request demo_env demo_world 99 (demo_user 1 ''college_admin'' (Some 1) False)
          = (demo_world, Inl (HTTPException 404 ''Verification request not found''))"
    and "approve_request demo_env demo_world (vr_id (demo_request 2 2 ''rejected''))
           (demo_user 1 ''college_admin'' (Some 1) False)
          = (demo_world\<lparr>verification_requests :=
               map (\<lambda>r. if vr_id r = vr_id (demo_request 2 2 ''rejected'')
                         then (demo_request 2 2 ''rejected'')\<lparr>vr_status := ''approved''\<rparr> else r)
                 (verification_requests demo_world)\<rparr>, Inr ''Approved'')"
    and "reject_request demo_env demo_world (vr_id (demo_request 2 2 ''rejected''))
           (Some ''blurred'') (demo_user 1 ''college_admin'' (Some 1) False)
          = (demo_world\<lparr>verification_requests :=
               map (\<lambda>r. if vr_id r = vr_id (demo_request 2 2 ''rejected'')
                         then (demo_request 2 2 ''rejected'')
                                \<lparr>vr_status := ''rejected'', vr_admin_note := Some ''blurred''\<rparr>
                         else r)
                 (verification_requests demo_world)\<rparr>, Inr ''Rejected'')"
    by blast+
  then show ?thesis
    using adm pk absent mem by (simp only: i rows simp_thms)
qed

lemma commit_verification_request_member:
  assumes "r \<in> set (verification_requests w)" and "vr_id r = vr_id v"
  shows "v \<in> set (verification_requests (commit_verification_request v w))"
proof -
  have "v \<in> (\<lambda>r. if vr_id r = vr_id v then v else r) ` set (verification_requests w)"
    using assms(1) by (rule rev_image_eqI) (simp add: assms(2))
  then show ?thesis by (simp add: commit_verification_request_def)
qed

lemma approve_request_found:
  assumes "get_current_active_college_admin env reviewer = None"
    and "filter (\<lambda>r. vr_id r = i) (verification_requests w) = [vr]"
  shows "approve_request env w i reviewer =
           (commit_verification_request (vr\<lparr>vr_status := ''approved''\<rparr>) w, Inr ''Approved'')"
  using assms by (simp add: approve_request_def)

lemma reject_request_found:
  assumes "get_current_active_college_admin env reviewer = None"
    and "filter (\<lambda>r. vr_id r = i) (verification_requests w) = [vr]"
  shows "reject_request env w i note reviewer =
           (commit_verification_request (vr\<lparr>vr_status := ''rejected'', vr_admin_note := note\<rparr>) w,
            Inr ''Rejected'')"
  using assms by (simp add: reject_request_def)

text \<open>
  C9. For a reviewer the college-admin dependency admits and a request that is in the
  table (ids distinct), approve and reject succeed and store the decision whatever the
  users table says, hence whatever the college of the submitting user; and the outcome is
  the same for every other reviewer the dependency admits, whatever that reviewer's
  college.
\<close>

theorem decision_ignores_tenant:
  assumes "get_current_active_college_admin env reviewer = None"
    and "distinct (map vr_id (verification_requests w))"
    and "vr \<in> set (verification_requests w)"
  shows "snd (approve_request env (w\<lparr>users := us\<rparr>) (vr_id vr) reviewer) = Inr ''Approved''
       \<and> vr\<lparr>vr_status := ''approved''\<rparr>
           \<in> set (verification_requests
                   (fst (approve_request env (w\<lparr>users := us\<rparr>) (vr_id vr) reviewer)))
       \<and> snd (reject_request env (w\<lparr>users := us\<rparr>) (vr_id vr) note reviewer) = Inr ''Rejected''
       \<and> vr\<lparr>vr_status := ''rejected'', vr_admin_note := note\<rparr>
           \<in> set (verification_requests
                   (fst (reject_request env (w\<lparr>users := us\<rparr>) (vr_id vr) note reviewer)))
       \<and> (get_current_active_college_admin env reviewer' = None \<longrightarrow>
            approve_request env w (vr_id vr) reviewer' = approve_request env w (vr_id vr) reviewer
            \<and> reject_request env w (vr_id vr) note reviewer'
                = reject_request env w (vr_id vr) note reviewer)"
proof -
  let ?w = "w\<lparr>users := us\<rparr>"
  have mem: "vr \<in> set (verification_requests ?w)" using assms(3) by simp
  have q: "filter (\<lambda>r. vr_id r = vr_id vr) (verification_requests w) = [vr]"
    using assms(2,3) by (simp add: filter_key_distinct)
  then have q': "filter (\<lambda>r. vr_id r = vr_id vr) (verification_requests ?w) = [vr]"
    by simp
  have a: "approve_request env ?w (vr_id vr) reviewer =
             (commit_verification_request (vr\<lparr>vr_status := ''approved''\<rparr>) ?w, Inr ''Approved'')"
    using assms(1) q' by (rule approve_request_found)
  have r: "reject_request env ?w (vr_id vr) note reviewer =
             (commit_verification_request
                (vr\<lparr>vr_status := ''rejected'', vr_admin_note := note\<rparr>) ?w, Inr ''Rejected'')"
    using assms(1) q' by (rule reject_request_found)
  have ma: "vr\<lparr>vr_status := ''approved''\<rparr>
              \<in> set (verification_requests
                      (commit_verification_request (vr\<lparr>vr_status := ''approved''\<rparr>) ?w))"
    using mem by (rule commit_verification_request_member) simp
  have mr: "vr\<lparr>vr_status := ''rejected'', vr_admin_note := note\<rparr>
              \<in> set (verification_requests
                      (commit_verification_request
                         (vr\<lparr>vr_status := ''rejected'', vr_admin_note := note\<rparr>) ?w))"
    using mem by (rule commit_verification_request_member) simp
  have same: "get_current_active_college_admin env reviewer' = None \<Longrightarrow>
            approve_request env w (vr_id vr) reviewer' = approve_request env w (vr_id vr) reviewer
            \<and> reject_request env w (vr_id vr) note reviewer'
                = reject_request env w (vr_id vr) note reviewer"
    using assms(1) q
    by (simp only: approve_request_found[OF _ q] reject_request_found[OF _ q] simp_thms)
  show ?thesis
    unfolding a r fst_conv snd_conv using ma mr same by blast
qed

theorem decision_ignores_tenant_witness:
  "get_current_active_college_admin demo_env (demo_user 1 ''college_admin'' (Some 1) False) = None
   \<and> distinct (map vr_id (verification_requests demo_world))
   \<and> demo_request 1 3 ''pending'' \<in> set (verification_requests demo_world)
   \<and> demo_user 3 ''student'' (Some 2) False \<in> set (users demo_world)
   \<and> u_id (demo_user 3 ''student'' (Some 2) False) = vr_user_id (demo_request 1 3 ''pending'')
   \<and> u_college_id (demo_user 3 ''student'' (Some 2) False)
       \<noteq> u_college_id (demo_user 1 ''college_admin'' (Some 1) False)
   \<and> snd (approve_request demo_env demo_world 1 (demo_user 1 ''college_admin'' (Some 1) False))
       = Inr ''Approved''
   \<and> snd (reject_request demo_env demo_world 1 None
             (demo_user 1 ''college_admin'' (Some 1) False)) = Inr ''Rejected''
   \<and> get_current_active_college_admin demo_env (demo_user 4 ''super_admin'' None True) = None"
proof -
  have adm: "get_current_active_college_admin demo_env
               (demo_user 1 ''college_admin'' (Some 1) False) = None"
    by (simp add: demo_env_def demo_user_def spec_current_active_college_admin_def)
  have adm': "get_current_active_college_admin demo_env (demo_user 4 ''super_admin'' None True) = None"
    by (simp add: demo_env_def demo_user_def spec_current_active_college_admin_def)
  have pk: "distinct (map vr_id (verification_requests demo_world))"
    by (simp add: demo_world_def demo_request_def)
  have mem: "demo_request 1 3 ''pending'' \<in> set (verification_requests demo_world)"
    by (simp add: demo_world_def)
  have cross: "demo_user 3 ''student'' (Some 2) False \<in> set (users demo_world)"
    "u_id (demo_user 3 ''student'' (Some 2) False) = vr_user_id (demo_request 1 3 ''pending'')"
    "u_college_id (demo_user 3 ''student'' (Some 2) False)
       \<noteq> u_college_id (demo_user 1 ''college_admin'' (Some 1) False)"
    by (simp_all add: demo_world_def demo_user_def demo_request_def)
  have same: "demo_world\<lparr>users := users demo_world\<rparr> = demo_world" by simp
  have i: "vr_id (demo_request 1 3 ''pending'') = 1" by (simp add: demo_request_def)
  show ?thesis
    using decision_ignores_tenant[OF adm pk mem, of "users demo_world" None
        "demo_user 4 ''super_admin'' None True"] adm adm' pk mem cross
    by (simp only: same i simp_thms)
qed



section \<open>Reading and writing one event\<close>

text \<open>
  C5, evaluated. The student of college 2 reads event 1 of college 1 (\<open>read_event\<close>
  takes no actor at all). The same student, neither superuser nor organizer, is refused
  the update and the delete of event 1 with the store unchanged, but with status 400;
  the image upload of the same file refuses the same actor with status 403.
\<close>

theorem event_write_denied_with_400:
  "read_event demo_world 1 = Inr (demo_event 1 ''Hack Night'' 1 (Some 1))
   \<and> e_college_id (demo_event 1 ''Hack Night'' 1 (Some 1))
       \<noteq> u_college_id (demo_user 3 ''student'' (Some 2) False)
   \<and> update_event demo_env demo_world 1
        \<lparr>eu_title = Some ''Taken over'', eu_description = None, eu_location = None,
         eu_start_time = None, eu_end_time = None\<rparr>
        (demo_user 3 ''student'' (Some 2) False)
       = (demo_world, Inl (HTTPException 400 ''Not enough permissions''))
   \<and> delete_event demo_env demo_world 1 (demo_user 3 ''student'' (Some 2) False)
       = (demo_world, Inl (HTTPException 400 ''Not enough permissions''))
   \<and> upload_event_image demo_env demo_world 1
        \<lparr>uf_filename = ''poster.png'', uf_contents = ''png bytes''\<rparr>
        (demo_user 3 ''student'' (Some 2) False)
       = (demo_world, Inl (HTTPException 403 ''Not enough permissions''))"
  by (simp add: read_event_def update_event_def delete_event_def upload_event_image_def
        demo_env_def demo_world_def demo_user_def demo_event_def spec_current_active_user_def)

section \<open>File types\<close>

lemma filename_extension_photo_gif: "filename_extension ''photo.gif'' = ''gif''"
  by (simp add: filename_extension_def lower_def char_lower_def)


text \<open>
  C6, as amended. For an actor the dependency admits and a file whose extension is
  outside the allow-list of the kind: the profile-image upload fails with
  \<open>400 Invalid file type\<close> and the state, the log of storage calls included, is unchanged;
  the submission of a verification document leaves the state unchanged too, and fails
  with \<open>400 Invalid file type\<close> when the actor has no pending request (with a pending
  request the check for it comes first).
\<close>

theorem invalid_file_type_rejected_first:
  assumes "get_current_active_user env actor = None"
  shows "(filename_extension (uf_filename file) \<notin> set [''jpg'', ''jpeg'', ''png'', ''webp'']
          \<longrightarrow> upload_profile_image env w file actor =
                (w, Inl (HTTPException 400 ''Invalid file type. Only JPG/PNG/WEBP allowed.'')))
       \<and> (filename_extension (uf_filename file) \<notin> set [''jpg'', ''jpeg'', ''png'', ''pdf'']
          \<longrightarrow> fst (create_verification_request env w file actor) = w
              \<and> (filter (\<lambda>r. vr_user_id r = u_id actor \<and> vr_status r = ''pending'')
                    (verification_requests w) = []
                  \<longrightarrow> create_verification_request env w file actor =
                        (w, Inl (HTTPException 400
                                   ''Invalid file type. Only JPG/PNG/PDF allowed.''))))"
  using assms
  by (simp add: upload_profile_image_def create_verification_request_def Let_def
      split: sum.splits option.splits)


theorem invalid_file_type_rejected_first_witness:
  "get_current_active_user demo_env (demo_user 2 ''student'' (Some 1) False) = None
   \<and> filename_extension ''photo.gif'' \<notin> set [''jpg'', ''jpeg'', ''png'', ''webp'']
   \<and> upload_profile_image demo_env demo_world
        \<lparr>uf_filename = ''photo.gif'', uf_contents = ''gif bytes''\<rparr>
        (demo_user 2 ''student'' (Some 1) False)
       = (demo_world, Inl (HTTPException 400 ''Invalid file type. Only JPG/PNG/WEBP allowed.''))
   \<and> filename_extension ''photo.gif'' \<notin> set [''jpg'', ''jpeg'', ''png'', ''pdf'']
   \<and> filter (\<lambda>r. vr_user_id r = u_id (demo_user 2 ''student'' (Some 1) False)
                   \<and> vr_status r = ''pending'') (verification_requests demo_world) = []
   \<and> create_verification_request demo_env demo_world
        \<lparr>uf_filename = ''photo.gif'', uf_contents = ''gif bytes''\<rparr>
        (demo_user 2 ''student'' (Some 1) False)
       = (demo_world, Inl (HTTPException 400 ''Invalid file type. Only JPG/PNG/PDF allowed.''))"
proof -
  have adm: "get_current_active_user demo_env (demo_user 2 ''student'' (Some 1) False) = None"
    by (simp add: demo_env_def spec_current_active_user_def)
  have bad: "filename_extension ''photo.gif'' \<notin> set [''jpg'', ''jpeg'', ''png'', ''webp'']"
    "filename_extension ''photo.gif'' \<notin> set [''jpg'', ''jpeg'', ''png'', ''pdf'']"
    by (simp_all add: filename_extension_photo_gif)
  have none: "filter (\<lambda>r. vr_user_id r = u_id (demo_user 2 ''student'' (Some 1) False)
                   \<and> vr_status r = ''pending'') (verification_requests demo_world) = []"
    by (simp add: demo_world_def demo_user_def demo_request_def)
  have f: "uf_filename \<lparr>uf_filename = ''photo.gif'', uf_contents = ''gif bytes''\<rparr> = ''photo.gif''"
    by simp
  show ?thesis
    using invalid_file_type_rejected_first[OF adm, of
        "\<lparr>uf_filename = ''photo.gif'', uf_contents = ''gif bytes''\<rparr>" demo_world]
      adm bad none
    unfolding f by blast
qed

text \<open>
  C6 as stated fails: the student with a pending request who submits \<open>card.gif\<close> gets the
  pending-request error, not the file-type error.
\<close>

theorem invalid_file_type_counterexample:
  "filename_extension ''card.gif'' \<notin> set [''jpg'', ''jpeg'', ''png'', ''pdf'']
   \<and> create_verification_request demo_env demo_world
        \<lparr>uf_filename = ''card.gif'', uf_contents = ''gif bytes''\<rparr>
        (demo_user 3 ''student'' (Some 2) False)
       = (demo_world, Inl (HTTPException 400 ''A pending verification request already exists.''))
   \<and> HTTPException 400 ''A pending verification request already exists.''
       \<noteq> HTTPException 400 ''Invalid file type. Only JPG/PNG/PDF allowed.''"
  by (simp add: create_verification_request_def filename_extension_def lower_def char_lower_def
        demo_env_def demo_world_def demo_user_def demo_request_def spec_current_active_user_def)

section \<open>Uploads without a remote object store\<close>

lemma str_int_small: "str_int 1 = ''1''" "str_int 2 = ''2''"
  by (simp_all add: str_int_def str_nat.simps char_of_def bit_Suc_0_iff bit_iff_odd)

text \<open>
  C7, evaluated. No remote object store is configured. The student with id 2 creates a
  marketplace item with the image \<open>pics/poster.png\<close>, whose extension is allowed: the
  item is committed, the directory \<open>static/marketplace\<close> is made, and opening
  \<open>static/marketplace/2_pics/poster.png\<close> raises \<open>FileNotFoundError\<close>, so the request
  fails and the item is left without an image URL. With the file name \<open>poster.png\<close> the
  same request succeeds. The same file \<open>pics/poster.png\<close> uploaded as the image of event
  1 by its organizer is written to \<open>static/events/event_1.png\<close> and stored as
  \<open>/static/events/event_1.png\<close>: that endpoint builds the local name from the id and the
  extension only.
\<close>

theorem create_item_local_write_fails:
  "\<not> is_configured (storage demo_env)
   \<and> get_current_active_user demo_env (demo_user 2 ''student'' (Some 1) False) = None
   \<and> filename_extension ''pics/poster.png'' \<in> set [''jpg'', ''jpeg'', ''png'', ''webp'']
   \<and> create_item demo_env demo_world ''Lamp'' ''Desk lamp'' 5 ''other''
        (Some \<lparr>uf_filename = ''pics/poster.png'', uf_contents = ''png bytes''\<rparr>)
        (demo_user 2 ''student'' (Some 1) False)
       = (demo_world
            \<lparr>marketplace_items :=
               [\<lparr>mi_id = 1, mi_owner_id = 2, mi_title = ''Lamp'', mi_description = ''Desk lamp'',
                 mi_price = 5, mi_category = ''other'', mi_image_url = None,
                 mi_is_available = True, mi_created_at = 7\<rparr>],
             io_log := [LocalMkdir ''static/marketplace'',
                        LocalWrite ''static/marketplace/2_pics/poster.png'' ''png bytes''],
             local_dirs := [''static'', ''static/marketplace'']\<rparr>,
          Inl FileNotFoundError)
   \<and> create_item demo_env demo_world ''Lamp'' ''Desk lamp'' 5 ''other''
        (Some \<lparr>uf_filename = ''poster.png'', uf_contents = ''png bytes''\<rparr>)
        (demo_user 2 ''student'' (Some 1) False)
       = (demo_world
            \<lparr>marketplace_items :=
               [\<lparr>mi_id = 1, mi_owner_id = 2, mi_title = ''Lamp'', mi_description = ''Desk lamp'',
                 mi_price = 5, mi_category = ''other'',
                 mi_image_url = Some ''static/marketplace/2_poster.png'',
                 mi_is_available = True, mi_created_at = 7\<rparr>],
             io_log := [LocalMkdir ''static/marketplace'',
                        LocalWrite ''static/marketplace/2_poster.png'' ''png bytes''],
             local_dirs := [''static'', ''static/marketplace'']\<rparr>,
          Inr \<lparr>mi_id = 1, mi_owner_id = 2, mi_title = ''Lamp'', mi_description = ''Desk lamp'',
               mi_price = 5, mi_category = ''other'',
               mi_image_url = Some ''static/marketplace/2_poster.png'',
               mi_is_available = True, mi_created_at = 7\<rparr>)
   \<and> upload_event_image demo_env demo_world 1
        \<lparr>uf_filename = ''pics/poster.png'', uf_contents = ''png bytes''\<rparr>
        (demo_user 1 ''college_admin'' (Some 1) False)
       = (demo_world
            \<lparr>events :=
               [(demo_event 1 ''Hack Night'' 1 (Some 1))
                  \<lparr>e_image_url := Some ''/static/events/event_1.png''\<rparr>,
                demo_event 2 ''Quiz'' 1 (Some 1), demo_event 3 ''Fair'' 9 (Some 2)],
             io_log := [LocalMkdir ''static/events'',
                        LocalWrite ''static/events/event_1.png'' ''png bytes''],
             local_dirs := [''static'', ''static/events'']\<rparr>,
          Inr ((demo_event 1 ''Hack Night'' 1 (Some 1))
                 \<lparr>e_image_url := Some ''/static/events/event_1.png''\<rparr>))"
proof -
  have nc: "\<not> is_configured (storage demo_env)"
    by (simp add: demo_env_def SupabaseStorage_def is_configured_def)
  have adm: "get_current_active_user demo_env u = None" for u
    by (simp add: demo_env_def spec_current_active_user_def)
  have ext: "filename_extension ''pics/poster.png'' = ''png''"
    "filename_extension ''poster.png'' = ''png''"
    by (simp_all add: filename_extension_def lower_def char_lower_def)
  have dirs: "dir_prefixes [] ''static/marketplace'' = [''static'', ''static/marketplace'']"
    "dir_prefixes [] ''static/events'' = [''static'', ''static/events'']"
    by simp_all
  have parents: "parent_dir ''static/marketplace/2_pics/poster.png'' = ''static/marketplace/2_pics''"
    "parent_dir ''static/marketplace/2_poster.png'' = ''static/marketplace''"
    "parent_dir ''static/events/event_1.png'' = ''static/events''"
    by (simp_all add: parent_dir_def)
  have rb: "replace_backslash ''static/marketplace/2_poster.png'' = ''static/marketplace/2_poster.png''"
    by (simp add: replace_backslash_def)
  have bad: "create_item demo_env demo_world ''Lamp'' ''Desk lamp'' 5 ''other''
        (Some \<lparr>uf_filename = ''pics/poster.png'', uf_contents = ''png bytes''\<rparr>)
        (demo_user 2 ''student'' (Some 1) False)
       = (demo_world
            \<lparr>marketplace_items :=
               [\<lparr>mi_id = 1, mi_owner_id = 2, mi_title = ''Lamp'', mi_description = ''Desk lamp'',
                 mi_price = 5, mi_category = ''other'', mi_image_url = None,
                 mi_is_available = True, mi_created_at = 7\<rparr>],
             io_log := [LocalMkdir ''static/marketplace'',
                        LocalWrite ''static/marketplace/2_pics/poster.png'' ''png bytes''],
             local_dirs := [''static'', ''static/marketplace'']\<rparr>,
          Inl FileNotFoundError)"
    by (simp add: create_item_def adm ext storage_upload_marketplace_item_def nc
          url_or_local_def write_local_file_def mkdir_parents_def open_raises_def dirs parents Let_def
          demo_user_def demo_world_def fresh_id_def str_int_small)
  have good: "create_item demo_env demo_world ''Lamp'' ''Desk lamp'' 5 ''other''
        (Some \<lparr>uf_filename = ''poster.png'', uf_contents = ''png bytes''\<rparr>)
        (demo_user 2 ''student'' (Some 1) False)
       = (demo_world
            \<lparr>marketplace_items :=
               [\<lparr>mi_id = 1, mi_owner_id = 2, mi_title = ''Lamp'', mi_description = ''Desk lamp'',
                 mi_price = 5, mi_category = ''other'',
                 mi_image_url = Some ''static/marketplace/2_poster.png'',
                 mi_is_available = True, mi_created_at = 7\<rparr>],
             io_log := [LocalMkdir ''static/marketplace'',
                        LocalWrite ''static/marketplace/2_poster.png'' ''png bytes''],
             local_dirs := [''static'', ''static/marketplace'']\<rparr>,
          Inr \<lparr>mi_id = 1, mi_owner_id = 2, mi_title = ''Lamp'', mi_description = ''Desk lamp'',
               mi_price = 5, mi_category = ''other'',
               mi_image_url = Some ''static/marketplace/2_poster.png'',
               mi_is_available = True, mi_created_at = 7\<rparr>)"
    by (simp add: create_item_def adm ext storage_upload_marketplace_item_def nc
          url_or_local_def write_local_file_def mkdir_parents_def open_raises_def dirs parents rb Let_def
          commit_item_def demo_user_def demo_world_def fresh_id_def str_int_small)
  have event: "upload_event_image demo_env demo_world 1
        \<lparr>uf_filename = ''pics/poster.png'', uf_contents = ''png bytes''\<rparr>
        (demo_user 1 ''college_admin'' (Some 1) False)
       = (demo_world
            \<lparr>events :=
               [(demo_event 1 ''Hack Night'' 1 (Some 1))
                  \<lparr>e_image_url := Some ''/static/events/event_1.png''\<rparr>,
                demo_event 2 ''Quiz'' 1 (Some 1), demo_event 3 ''Fair'' 9 (Some 2)],
             io_log := [LocalMkdir ''static/events'',
                        LocalWrite ''static/events/event_1.png'' ''png bytes''],
             local_dirs := [''static'', ''static/events'']\<rparr>,
          Inr ((demo_event 1 ''Hack Night'' 1 (Some 1))
                 \<lparr>e_image_url := Some ''/static/events/event_1.png''\<rparr>))"
    by (simp add: upload_event_image_def adm ext storage_upload_event_image_def nc
          url_or_local_def write_local_file_def mkdir_parents_def open_raises_def dirs parents Let_def
          commit_event_def demo_user_def demo_event_def demo_world_def str_int_small)
  show ?thesis
    using nc adm[of "demo_user 2 ''student'' (Some 1) False"] bad good event
    by (simp only: ext) simp
qed

section \<open>Updating one's own profile\<close>

lemma apply_user_update_fields:
  "u_id (apply_user_update user_in h u) = u_id u"
  "u_email (apply_user_update user_in h u) = assign (uu_email user_in) (u_email u)"
  "u_is_active (apply_user_update user_in h u) = assign (uu_is_active user_in) (u_is_active u)"
  "u_is_superuser (apply_user_update user_in h u)
     = assign (uu_is_superuser user_in) (u_is_superuser u)"
  "u_full_name (apply_user_update user_in h u) = assign (uu_full_name user_in) (u_full_name u)"
  "u_phone_number (apply_user_update user_in h u)
     = assign (uu_phone_number user_in) (u_phone_number u)"
  "u_address (apply_user_update user_in h u) = assign (uu_address user_in) (u_address u)"
  "u_interests (apply_user_update user_in h u) = assign (uu_interests user_in) (u_interests u)"
  "u_college_name (apply_user_update user_in h u)
     = assign (uu_college_name user_in) (u_college_name u)"
  "u_profile_image_url (apply_user_update user_in h u)
     = assign (uu_profile_image_url user_in) (u_profile_image_url u)"
  "u_theme_preference (apply_user_update user_in h u)
     = assign (uu_theme_preference user_in) (u_theme_preference u)"
  "u_college_id (apply_user_update user_in h u) = assign (uu_college_id user_in) (u_college_id u)"
  "u_role (apply_user_update user_in h u) = assign (uu_role user_in) (u_role u)"
  "u_hashed_password (apply_user_update user_in h u) = assign h (u_hashed_password u)"
  by (simp_all add: apply_user_update_def)

lemma commit_user_rows:
  "r \<in> set (users (commit_user u w)) \<Longrightarrow> u_id r = u_id u \<Longrightarrow> r = u"
  by (auto simp: commit_user_def split: if_splits)

lemma update_user_me_result:
  assumes "get_current_active_user env actor = None"
  shows "uu_password user_in = None \<Longrightarrow>
           update_user_me env w user_in actor =
             (commit_user (apply_user_update user_in None actor) w,
              Inr (apply_user_update user_in None actor))"
    and "uu_password user_in = Some p \<Longrightarrow> get_password_hash env p = Inr h \<Longrightarrow>
           update_user_me env w user_in actor =
             (commit_user (apply_user_update user_in (Some h) actor) w,
              Inr (apply_user_update user_in (Some h) actor))"
  using assms by (simp_all add: update_user_me_def Let_def)

text \<open>
  C8. For an actor the dependency admits, \<open>update_user_me\<close> applies no further check: a
  request without a password (or with one that the hash accepts) succeeds and commits and
  returns the user with every field that the request sets assigned, \<open>is_superuser\<close>,
  \<open>role\<close> and \<open>college_id\<close> among them. So the request that sets \<open>is_superuser\<close> to true
  and \<open>college_id\<close> to any \<open>c\<close> succeeds, and afterwards the returned user and every row of
  the actor's id in the store is a superuser of college \<open>c\<close>.
\<close>

theorem update_user_me_grants_privilege:
  assumes "get_current_active_user env actor = None"
  shows "(uu_password user_in = None \<longrightarrow>
            update_user_me env w user_in actor =
              (commit_user (apply_user_update user_in None actor) w,
               Inr (apply_user_update user_in None actor)))
       \<and> (\<forall>p h. uu_password user_in = Some p \<and> get_password_hash env p = Inr h \<longrightarrow>
            update_user_me env w user_in actor =
              (commit_user (apply_user_update user_in (Some h) actor) w,
               Inr (apply_user_update user_in (Some h) actor)))
       \<and> (\<forall>v. uu_is_superuser user_in = Some v \<longrightarrow>
              u_is_superuser (apply_user_update user_in hashed actor) = v)
       \<and> (\<forall>v. uu_role user_in = Some v \<longrightarrow> u_role (apply_user_update user_in hashed actor) = v)
       \<and> (\<forall>v. uu_college_id user_in = Some v \<longrightarrow>
              u_college_id (apply_user_update user_in hashed actor) = v)
       \<and> (\<forall>v. uu_email user_in = Some v \<longrightarrow> u_email (apply_user_update user_in hashed actor) = v)
       \<and> (\<forall>v. uu_is_active user_in = Some v \<longrightarrow>
              u_is_active (apply_user_update user_in hashed actor) = v)
       \<and> (\<forall>v. uu_full_name user_in = Some v \<longrightarrow>
              u_full_name (apply_user_update user_in hashed actor) = v)
       \<and> (\<forall>v. uu_phone_number user_in = Some v \<longrightarrow>
              u_phone_number (apply_user_update user_in hashed actor) = v)
       \<and> (\<forall>v. uu_address user_in = Some v \<longrightarrow>
              u_address (apply_user_update user_in hashed actor) = v)
       \<and> (\<forall>v. uu_interests user_in = Some v \<longrightarrow>
              u_interests (apply_user_update user_in hashed actor) = v)
       \<and> (\<forall>v. uu_college_name user_in = Some v \<longrightarrow>
              u_college_name (apply_user_update user_in hashed actor) = v)
       \<and> (\<forall>v. uu_profile_image_url user_in = Some v \<longrightarrow>
              u_profile_image_url (apply_user_update user_in hashed actor) = v)
       \<and> (\<forall>v. uu_theme_preference user_in = Some v \<longrightarrow>
              u_theme_preference (apply_user_update user_in hashed actor) = v)
       \<and> (\<exists>w' u'. update_user_me env w
                      (empty_update\<lparr>uu_is_superuser := Some True, uu_college_id := Some c\<rparr>)
                      actor = (w', Inr u')
             \<and> u_id u' = u_id actor \<and> u_is_superuser u' \<and> u_college_id u' = c
             \<and> (\<forall>r \<in> set (users w'). u_id r = u_id actor \<longrightarrow>
                   u_is_superuser r \<and> u_college_id r = c))"
proof -
  let ?req = "empty_update\<lparr>uu_is_superuser := Some True, uu_college_id := Some c\<rparr>"
  let ?u = "apply_user_update ?req None actor"
  have pw: "uu_password ?req = None" by (simp add: empty_update_def)
  have res: "update_user_me env w ?req actor = (commit_user ?u w, Inr ?u)"
    using update_user_me_result(1)[OF assms pw] .
  have f: "u_id ?u = u_id actor" "u_is_superuser ?u" "u_college_id ?u = c"
    by (simp_all add: apply_user_update_fields assign_def empty_update_def)
  have rows: "\<forall>r \<in> set (users (commit_user ?u w)). u_id r = u_id actor \<longrightarrow>
                u_is_superuser r \<and> u_college_id r = c"
    using commit_user_rows[of _ ?u w] f by metis
  have ex: "\<exists>w' u'. update_user_me env w ?req actor = (w', Inr u')
             \<and> u_id u' = u_id actor \<and> u_is_superuser u' \<and> u_college_id u' = c
             \<and> (\<forall>r \<in> set (users w'). u_id r = u_id actor \<longrightarrow>
                   u_is_superuser r \<and> u_college_id r = c)"
    using res f rows by blast
  have gen: "(uu_password user_in = None \<longrightarrow>
            update_user_me env w user_in actor =
              (commit_user (apply_user_update user_in None actor) w,
               Inr (apply_user_update user_in None actor)))
       \<and> (\<forall>p h. uu_password user_in = Some p \<and> get_password_hash env p = Inr h \<longrightarrow>
            update_user_me env w user_in actor =
              (commit_user (apply_user_update user_in (Some h) actor) w,
               Inr (apply_user_update user_in (Some h) actor)))"
    using update_user_me_result[OF assms] by blast
  have fields:
    "\<And>v. uu_is_superuser user_in = Some v \<Longrightarrow>
            u_is_superuser (apply_user_update user_in hashed actor) = v"
    "\<And>v. uu_role user_in = Some v \<Longrightarrow> u_role (apply_user_update user_in hashed actor) = v"
    "\<And>v. uu_college_id user_in = Some v \<Longrightarrow>
            u_college_id (apply_user_update user_in hashed actor) = v"
    "\<And>v. uu_email user_in = Some v \<Longrightarrow> u_email (apply_user_update user_in hashed actor) = v"
    "\<And>v. uu_is_active user_in = Some v \<Longrightarrow>
            u_is_active (apply_user_update user_in hashed actor) = v"
    "\<And>v. uu_full_name user_in = Some v \<Longrightarrow>
            u_full_name (apply_user_update user_in hashed actor) = v"
    "\<And>v. uu_phone_number user_in = Some v \<Longrightarrow>
            u_phone_number (apply_user_update user_in hashed actor) = v"
    "\<And>v. uu_address user_in = Some v \<Longrightarrow>
            u_address (apply_user_update user_in hashed actor) = v"
    "\<And>v. uu_interests user_in = Some v \<Longrightarrow>
            u_interests (apply_user_update user_in hashed actor) = v"
    "\<And>v. uu_college_name user_in = Some v \<Longrightarrow>
            u_college_name (apply_user_update user_in hashed actor) = v"
    "\<And>v. uu_profile_image_url user_in = Some v \<Longrightarrow>
            u_profile_image_url (apply_user_update user_in hashed actor) = v"
    "\<And>v. uu_theme_preference user_in = Some v \<Longrightarrow>
            u_theme_preference (apply_user_update user_in hashed actor) = v"
    by (simp_all add: apply_user_update_fields assign_def)
  show ?thesis
    using gen ex fields by blast
qed


theorem update_user_me_grants_privilege_witness:
  "get_current_active_user demo_env (demo_user 2 ''student'' (Some 1) False) = None
   \<and> uu_password (empty_update\<lparr>uu_is_superuser := Some True, uu_college_id := Some (Some 2)\<rparr>)
       = None
   \<and> update_user_me demo_env demo_world
        (empty_update\<lparr>uu_is_superuser := Some True, uu_college_id := Some (Some 2)\<rparr>)
        (demo_user 2 ''student'' (Some 1) False)
       = (demo_world\<lparr>users := [demo_user 1 ''college_admin'' (Some 1) False,
                                 demo_user 2 ''student'' (Some 2) True,
                                 demo_user 3 ''student'' (Some 2) False,
                                 demo_user 4 ''super_admin'' None True]\<rparr>,
          Inr (demo_user 2 ''student'' (Some 2) True))
   \<and> u_is_superuser (demo_user 2 ''student'' (Some 2) True)
   \<and> u_college_id (demo_user 2 ''student'' (Some 2) True)
       \<noteq> u_college_id (demo_user 2 ''student'' (Some 1) False)
   \<and> get_password_hash demo_env (Some ''pw'') = Inr ''hashed''
   \<and> snd (update_user_me demo_env demo_world
        \<lparr>uu_email = Some (Some ''eve@campus.test''), uu_is_active = Some (Some True),
         uu_is_superuser = Some True, uu_full_name = Some (Some ''Eve''),
         uu_phone_number = Some (Some ''555''), uu_address = Some (Some ''Hall 3''),
         uu_interests = Some (Some ''chess''), uu_college_name = Some (Some ''North''),
         uu_profile_image_url = Some None, uu_theme_preference = Some (Some ''dark''),
         uu_college_id = Some (Some 2), uu_role = Some (Some ''super_admin''),
         uu_password = Some (Some ''pw'')\<rparr>
        (demo_user 2 ''student'' (Some 1) False))
       = Inr \<lparr>u_id = 2, u_full_name = Some ''Eve'', u_email = Some ''eve@campus.test'',
              u_hashed_password = ''hashed'', u_role = Some ''super_admin'',
              u_college_id = Some 2, u_phone_number = Some ''555'',
              u_address = Some ''Hall 3'', u_interests = Some ''chess'',
              u_college_name = Some ''North'', u_profile_image_url = None,
              u_theme_preference = Some ''dark'', u_is_active = Some True,
              u_is_superuser = True, u_events_count = Some 0, u_buddies_count = Some 0\<rparr>"
  using update_user_me_grants_privilege
          [of demo_env "demo_user 2 ''student'' (Some 1) False"
              "empty_update\<lparr>uu_is_superuser := Some True, uu_college_id := Some (Some 2)\<rparr>"
              demo_world None "Some 2"]
        update_user_me_grants_privilege
          [of demo_env "demo_user 2 ''student'' (Some 1) False"
              "\<lparr>uu_email = Some (Some ''eve@campus.test''), uu_is_active = Some (Some True),
                uu_is_superuser = Some True, uu_full_name = Some (Some ''Eve''),
                uu_phone_number = Some (Some ''555''), uu_address = Some (Some ''Hall 3''),
                uu_interests = Some (Some ''chess''), uu_college_name = Some (Some ''North''),
                uu_profile_image_url = Some None, uu_theme_preference = Some (Some ''dark''),
                uu_college_id = Some (Some 2), uu_role = Some (Some ''super_admin''),
                uu_password = Some (Some ''pw'')\<rparr>"
              demo_world "Some ''hashed''" "Some 2"]
  by (simp add: update_user_me_def apply_user_update_def commit_user_def assign_def Let_def
        empty_update_def demo_env_def demo_world_def demo_user_def spec_current_active_user_def)


section \<open>A marketplace item with a refused file\<close>

text \<open>
  C10. For an actor the dependency admits and a file whose extension is outside
  \<open>{jpg, jpeg, png, webp}\<close>, \<open>create_item\<close> fails with \<open>400 Invalid file type\<close>, and the
  store it leaves differs from the one it found: the new item, with no image URL, is in
  the table. No storage call is made.
\<close>

theorem create_item_bad_file_keeps_item:
  assumes "get_current_active_user env actor = None"
    and "filename_extension (uf_filename file) \<notin> set [''jpg'', ''jpeg'', ''png'', ''webp'']"
  shows "create_item env w title description price category (Some file) actor =
           (w\<lparr>marketplace_items := marketplace_items w @
                  [\<lparr>mi_id = fresh_id (map mi_id (marketplace_items w)),
                    mi_owner_id = u_id actor, mi_title = title, mi_description = description,
                    mi_price = price, mi_category = category, mi_image_url = None,
                    mi_is_available = True, mi_created_at = now w\<rparr>]\<rparr>,
            Inl (HTTPException 400 ''Invalid file type. Only JPG/PNG/WEBP allowed.''))
       \<and> fst (create_item env w title description price category (Some file) actor) \<noteq> w
       \<and> io_log (fst (create_item env w title description price category (Some file) actor))
           = io_log w"
proof -
  let ?item = "\<lparr>mi_id = fresh_id (map mi_id (marketplace_items w)),
                    mi_owner_id = u_id actor, mi_title = title, mi_description = description,
                    mi_price = price, mi_category = category, mi_image_url = None,
                    mi_is_available = True, mi_created_at = now w\<rparr>"
  have res: "create_item env w title description price category (Some file) actor =
           (w\<lparr>marketplace_items := marketplace_items w @ [?item]\<rparr>,
            Inl (HTTPException 400 ''Invalid file type. Only JPG/PNG/WEBP allowed.''))"
    using assms by (simp add: create_item_def Let_def)
  have "marketplace_items (w\<lparr>marketplace_items := marketplace_items w @ [?item]\<rparr>)
          \<noteq> marketplace_items w"
    by simp
  then have ne: "w\<lparr>marketplace_items := marketplace_items w @ [?item]\<rparr> \<noteq> w"
    by metis
  show ?thesis unfolding res using ne by simp
qed



theorem create_item_bad_file_keeps_item_witness:
  "get_current_active_user demo_env (demo_user 2 ''student'' (Some 1) False) = None
   \<and> filename_extension (uf_filename \<lparr>uf_filename = ''photo.gif'', uf_contents = ''gif bytes''\<rparr>)
       \<notin> set [''jpg'', ''jpeg'', ''png'', ''webp'']
   \<and> create_item demo_env demo_world ''Lamp'' ''Desk lamp'' 5 ''other''
        (Some \<lparr>uf_filename = ''photo.gif'', uf_contents = ''gif bytes''\<rparr>)
        (demo_user 2 ''student'' (Some 1) False)
       = (demo_world\<lparr>marketplace_items :=
            [\<lparr>mi_id = 1, mi_owner_id = 2, mi_title = ''Lamp'', mi_description = ''Desk lamp'',
              mi_price = 5, mi_category = ''other'', mi_image_url = None,
              mi_is_available = True, mi_created_at = 7\<rparr>]\<rparr>,
          Inl (HTTPException 400 ''Invalid file type. Only JPG/PNG/WEBP allowed.''))
   \<and> marketplace_items demo_world = []"
proof -
  let ?actor = "demo_user 2 ''student'' (Some 1) False"
  let ?file = "\<lparr>uf_filename = ''photo.gif'', uf_contents = ''gif bytes''\<rparr>"
  have adm: "get_current_active_user demo_env ?actor = None"
    by (simp add: demo_env_def spec_current_active_user_def)
  have bad: "filename_extension (uf_filename ?file) \<notin> set [''jpg'', ''jpeg'', ''png'', ''webp'']"
    by (simp add: filename_extension_photo_gif)
  have vals: "u_id ?actor = 2" "now demo_world = 7" "marketplace_items demo_world = []"
    "fresh_id [] = 1"
    by (simp_all add: demo_user_def demo_world_def fresh_id_def)
  show ?thesis
    using create_item_bad_file_keeps_item[OF adm bad, of demo_world "''Lamp''" "''Desk lamp''" 5
        "''other''"] adm bad
    by (simp add: vals)
qed

end
